theory Spec2Isabelle
  imports Complex_Main
begin

section \<open>Values of the array backend\<close>

text \<open>
  TorchSWE computes on float64 arrays of a NumPy-like backend (\<open>nplike\<close>). A float is
  modelled as a real number, the negative zero, or one of the three special values of
  IEEE 754: \<open>Fin 0\<close> is \<open>+0.0\<close> and \<open>NZero\<close> is \<open>-0.0\<close>. The arithmetic follows IEEE 754 on
  the zeros and the special values and is exact on the other finite values: rounding,
  underflow and overflow are not modelled.
\<close>

datatype fl = Fin real | NZero | PInf | NInf | NaN

datatype error =
    ValueError string
  | TypeError string
  | IndexError string
  | OtherError string

definition bind_res :: "error + 'a \<Rightarrow> ('a \<Rightarrow> error + 'b) \<Rightarrow> error + 'b" where
  "bind_res m f = (case m of Inl e \<Rightarrow> Inl e | Inr x \<Rightarrow> f x)"

fun sequence_res :: "(error + 'a) list \<Rightarrow> error + 'a list" where
  "sequence_res [] = Inr []"
| "sequence_res (m # ms) =
     bind_res m (\<lambda>x. bind_res (sequence_res ms) (\<lambda>xs. Inr (x # xs)))"

text \<open>The sign bit, the two zeros, the two infinities, and the value of a finite float.\<close>

fun sign_bit :: "fl \<Rightarrow> bool" where
  "sign_bit (Fin x) = (x < 0)"
| "sign_bit NZero = True"
| "sign_bit PInf = False"
| "sign_bit NInf = True"
| "sign_bit NaN = False"

definition is_zero :: "fl \<Rightarrow> bool" where
  "is_zero a \<longleftrightarrow> a = Fin 0 \<or> a = NZero"

definition is_inf :: "fl \<Rightarrow> bool" where
  "is_inf a \<longleftrightarrow> a = PInf \<or> a = NInf"

definition zero_of :: "bool \<Rightarrow> fl" where
  "zero_of negative = (if negative then NZero else Fin 0)"

definition inf_of :: "bool \<Rightarrow> fl" where
  "inf_of negative = (if negative then NInf else PInf)"

fun finite_value :: "fl \<Rightarrow> real" where
  "finite_value (Fin x) = x"
| "finite_value _ = 0"

text \<open>Negation flips the sign bit, also of a zero: \<open>-(+0.0)\<close> is \<open>-0.0\<close>.\<close>

fun fl_neg :: "fl \<Rightarrow> fl" where
  "fl_neg (Fin x) = (if x = 0 then NZero else Fin (- x))"
| "fl_neg NZero = Fin 0"
| "fl_neg PInf = NInf"
| "fl_neg NInf = PInf"
| "fl_neg NaN = NaN"

text \<open>
  The comparison \<open>a < b\<close>: false whenever an operand is NaN; the two zeros compare equal.
\<close>

fun fl_lt :: "fl \<Rightarrow> fl \<Rightarrow> bool" where
  "fl_lt NaN _ = False"
| "fl_lt _ NaN = False"
| "fl_lt PInf _ = False"
| "fl_lt _ NInf = False"
| "fl_lt NInf _ = True"
| "fl_lt _ PInf = True"
| "fl_lt a b = (finite_value a < finite_value b)"

text \<open>
  Addition: a sum of zeros is \<open>-0.0\<close> only when both are; an exact sum that cancels is
  \<open>+0.0\<close>. Subtraction adds the negation.
\<close>

fun fl_add :: "fl \<Rightarrow> fl \<Rightarrow> fl" where
  "fl_add NaN _ = NaN"
| "fl_add _ NaN = NaN"
| "fl_add PInf NInf = NaN"
| "fl_add NInf PInf = NaN"
| "fl_add PInf _ = PInf"
| "fl_add _ PInf = PInf"
| "fl_add NInf _ = NInf"
| "fl_add _ NInf = NInf"
| "fl_add NZero b = b"
| "fl_add a NZero = a"
| "fl_add (Fin x) (Fin y) = Fin (x + y)"

definition fl_sub :: "fl \<Rightarrow> fl \<Rightarrow> fl" where
  "fl_sub a b = fl_add a (fl_neg b)"

text \<open>
  Multiplication and division: the sign of the result is the exclusive or of the signs of
  the operands, also when the result is a zero or an infinity. Division never raises on
  the backend's arrays and scalars: a non-zero value over a zero is the infinity of that
  sign (so \<open>x / -0.0\<close> is \<open>-inf\<close> for positive \<open>x\<close>), a zero over a zero is NaN (NumPy warns,
  or is silent under \<open>errstate(divide="ignore")\<close>).
\<close>

definition fl_mul :: "fl \<Rightarrow> fl \<Rightarrow> fl" where
  "fl_mul a b =
     (if a = NaN \<or> b = NaN then NaN
      else if is_inf a \<or> is_inf b then
        (if is_zero a \<or> is_zero b then NaN else inf_of (sign_bit a \<noteq> sign_bit b))
      else if finite_value a * finite_value b = 0 then zero_of (sign_bit a \<noteq> sign_bit b)
      else Fin (finite_value a * finite_value b))"

definition fl_div :: "fl \<Rightarrow> fl \<Rightarrow> fl" where
  "fl_div a b =
     (if a = NaN \<or> b = NaN then NaN
      else if is_inf a then (if is_inf b then NaN else inf_of (sign_bit a \<noteq> sign_bit b))
      else if is_inf b then zero_of (sign_bit a \<noteq> sign_bit b)
      else if is_zero b then (if is_zero a then NaN else inf_of (sign_bit a \<noteq> sign_bit b))
      else if is_zero a then zero_of (sign_bit a \<noteq> sign_bit b)
      else Fin (finite_value a / finite_value b))"

text \<open>
  \<open>nplike.maximum\<close> and \<open>nplike.minimum\<close> on two scalars: NaN propagates; where the
  operands compare equal, which matters for the two zeros only, the result is the second
  operand, as in NumPy's loops on x86: \<open>maximum(+0.0, -0.0)\<close> is \<open>-0.0\<close>.
\<close>

definition np_maximum :: "fl \<Rightarrow> fl \<Rightarrow> fl" where
  "np_maximum a b = (if a = NaN \<or> b = NaN then NaN else if fl_lt b a then a else b)"

definition np_minimum :: "fl \<Rightarrow> fl \<Rightarrow> fl" where
  "np_minimum a b = (if a = NaN \<or> b = NaN then NaN else if fl_lt a b then a else b)"

text \<open>Python's builtin \<open>min(a, b)\<close>: the second argument only when it compares smaller.\<close>

definition py_min :: "fl \<Rightarrow> fl \<Rightarrow> fl" where
  "py_min a b = (if fl_lt b a then b else a)"

text \<open>The largest finite float64, which \<open>nan_to_num\<close> puts in place of an infinity by default.\<close>

definition float_max :: real where
  "float_max = (2 ^ 53 - 1) * 2 ^ 971"

text \<open>\<open>numpy.nan_to_num(x, copy, nan, posinf)\<close> on a scalar, \<open>neginf\<close> left at its default.\<close>

fun np_nan_to_num :: "fl \<Rightarrow> fl \<Rightarrow> fl \<Rightarrow> fl" where
  "np_nan_to_num NaN nan posinf = nan"
| "np_nan_to_num PInf nan posinf = posinf"
| "np_nan_to_num NInf nan posinf = Fin (- float_max)"
| "np_nan_to_num x nan posinf = x"

text \<open>
  The two backends \<open>core/fvm.py\<close> provides for: NumPy, and a CuPy older than v10 whose
  \<open>nan_to_num\<close> rejects the call with four arguments (issue cupy/cupy#5866).
\<close>

datatype nplike = NumPy | CuPy_pre_v10

fun nplike_nan_to_num :: "nplike \<Rightarrow> fl \<Rightarrow> fl \<Rightarrow> fl \<Rightarrow> error + fl" where
  "nplike_nan_to_num NumPy x nan posinf = Inr (np_nan_to_num x nan posinf)"
| "nplike_nan_to_num CuPy_pre_v10 x nan posinf =
     Inl (TypeError ''Wrong number of arguments for cupy_nan_to_num'')"

text \<open>Python's \<open>needle in text\<close> on strings.\<close>

fun str_contains :: "string \<Rightarrow> string \<Rightarrow> bool" where
  "str_contains needle [] = (needle = [])"
| "str_contains needle (c # cs) =
     (if take (length needle) (c # cs) = needle then True else str_contains needle cs)"

subsection \<open>Arrays\<close>

text \<open>
  An array of rank two or three is a list of rows, nested. A binary elementwise operation
  broadcasts as NumPy does, axis by axis: equal lengths pair up, a length of one is
  repeated, anything else raises \<open>ValueError\<close>.
\<close>

type_synonym arr2 = "fl list list"
type_synonym arr3 = "fl list list list"

definition broadcast :: "('a \<Rightarrow> 'b \<Rightarrow> error + 'c) \<Rightarrow> 'a list \<Rightarrow> 'b list \<Rightarrow> error + 'c list" where
  "broadcast f xs ys =
     (if length xs = length ys then sequence_res (map2 f xs ys)
      else if length xs = 1 then sequence_res (map (f (hd xs)) ys)
      else if length ys = 1 then sequence_res (map (\<lambda>x. f x (hd ys)) xs)
      else Inl (ValueError ''operands could not be broadcast together''))"

definition arr2_op :: "(fl \<Rightarrow> fl \<Rightarrow> fl) \<Rightarrow> arr2 \<Rightarrow> arr2 \<Rightarrow> error + arr2" where
  "arr2_op f = broadcast (broadcast (\<lambda>a b. Inr (f a b)))"

definition arr3_op :: "(fl \<Rightarrow> fl \<Rightarrow> fl) \<Rightarrow> arr3 \<Rightarrow> arr3 \<Rightarrow> error + arr3" where
  "arr3_op f = broadcast (broadcast (broadcast (\<lambda>a b. Inr (f a b))))"

definition arr2_neg :: "arr2 \<Rightarrow> arr2" where
  "arr2_neg = map (map fl_neg)"

definition arr3_div_scalar :: "arr3 \<Rightarrow> fl \<Rightarrow> arr3" where
  "arr3_div_scalar a d = map (map (map (\<lambda>v. fl_div v d))) a"

text \<open>
  \<open>nplike.max(a)\<close>: the maximum over all elements, taken from the first to the last, NaN
  if one is NaN; a zero-size array raises \<open>ValueError\<close>.
\<close>

definition np_max :: "arr2 \<Rightarrow> error + fl" where
  "np_max a =
     (case concat a of
        [] \<Rightarrow> Inl (ValueError ''zero-size array to reduction operation maximum which has no identity'')
      | v # vs \<Rightarrow> Inr (foldl np_maximum v vs))"

section \<open>States, run-time data and configuration\<close>

text \<open>
  The fields of \<open>States\<close> that \<open>prepare_rhs\<close> reads or writes. \<open>x_H\<close> and \<open>y_H\<close> are
  \<open>states.face.x.H\<close> and \<open>states.face.y.H\<close> (named \<open>cf\<close> in \<open>torchswe/fvm.py\<close>), of shape
  (component, y, x); \<open>S\<close> is \<open>states.S\<close> (\<open>states.s\<close> there) and \<open>SS\<close> the accumulator of the
  stiff source terms; \<open>delta_x\<close> and \<open>delta_y\<close> are the cell sizes \<open>states.domain.x.delta\<close> and \<open>states.domain.y.delta\<close> (the pair
  \<open>states.domain.delta\<close> there, which lists dy first), and \<open>delta_array\<close> is
  \<open>states.domain.delta_array\<close>, again (dy, dx). Everything else a kernel or a source term
  touches lives in the record's extension.
\<close>

record states =
  x_plus_a :: arr2
  x_minus_a :: arr2
  y_plus_a :: arr2
  y_minus_a :: arr2
  x_H :: arr3
  y_H :: arr3
  S :: arr3
  SS :: arr3
  delta_x :: fl
  delta_y :: fl
  delta_array :: "fl \<times> fl"

text \<open>
  \<open>runtime\<close>: the source-term callables, already applied to the run-time data and the
  configuration they are called with (\<open>func(states, runtime, config)\<close>), the tolerance
  \<open>runtime.tol\<close> and the step size \<open>runtime.dt\<close>.
\<close>

record 'z runtime =
  sources :: "('z states_scheme \<Rightarrow> error + 'z states_scheme) list"
  stiff_sources :: "('z states_scheme \<Rightarrow> error + 'z states_scheme) list"
  tol :: fl
  dt :: fl

record config =
  params_allow_async :: bool
  params_gravity :: fl
  temporal_dt :: fl

text \<open>
  The four kernels are imported from modules outside the sources at hand
  (\<open>torchswe.core.reconstruction\<close>, \<open>torchswe.core.flux\<close>, \<open>torchswe.core.misc\<close>,
  \<open>torchswe.kernels\<close>): they are parameters, each returning the states or raising.
\<close>

record 'z core_kernels =
  core_reconstruct :: "'z states_scheme \<Rightarrow> 'z runtime \<Rightarrow> config \<Rightarrow> error + 'z states_scheme"
  core_get_local_speed :: "'z states_scheme \<Rightarrow> fl \<Rightarrow> error + 'z states_scheme"
  core_get_discontinuous_flux :: "'z states_scheme \<Rightarrow> fl \<Rightarrow> error + 'z states_scheme"
  core_central_scheme :: "'z states_scheme \<Rightarrow> fl \<Rightarrow> error + 'z states_scheme"

record 'z kernels =
  reconstruct :: "'z states_scheme \<Rightarrow> 'z runtime \<Rightarrow> config \<Rightarrow> error + 'z states_scheme"
  get_local_speed :: "'z states_scheme \<Rightarrow> error + 'z states_scheme"
  get_discontinuous_flux :: "'z states_scheme \<Rightarrow> error + 'z states_scheme"
  central_scheme :: "'z states_scheme \<Rightarrow> error + 'z states_scheme"

section \<open>The right-hand-side orchestrator\<close>

text \<open>
  To speak about the order of the stages, the model keeps a log beside the states: every
  stage that returns appends its event; a stage that raises ends the call.
\<close>

datatype event =
    Reconstruct
  | Local_speed
  | Discontinuous_flux
  | Central_flux
  | Divergence
  | Explicit_source nat
  | Stiff_source nat
  | Cfl_dt

definition call :: "event \<Rightarrow> ('s \<Rightarrow> error + 's) \<Rightarrow> 's \<times> event list \<Rightarrow> error + 's \<times> event list" where
  "call ev f p = bind_res (f (fst p)) (\<lambda>s. Inr (s, snd p @ [ev]))"

text \<open>\<open>for func in fs: states = func(states, runtime, config)\<close>, the callables numbered from \<open>i\<close>.\<close>

fun run_sources ::
  "(nat \<Rightarrow> event) \<Rightarrow> nat \<Rightarrow> ('s \<Rightarrow> error + 's) list \<Rightarrow> 's \<times> event list \<Rightarrow> error + 's \<times> event list" where
  "run_sources mk i [] p = Inr p"
| "run_sources mk i (f # fs) p = bind_res (call (mk i) f p) (run_sources mk (Suc i) fs)"

text \<open>
  The flux divergence
  \<open>(H_x[:, :, :-1] - H_x[:, :, 1:]) / dx + (H_y[:, :-1, :] - H_y[:, 1:, :]) / dy\<close>.
\<close>

definition flux_divergence :: "arr3 \<Rightarrow> arr3 \<Rightarrow> fl \<Rightarrow> fl \<Rightarrow> error + arr3" where
  "flux_divergence hx hy dx dy =
     bind_res (arr3_op fl_sub (map (map butlast) hx) (map (map tl) hx)) (\<lambda>ax.
     bind_res (arr3_op fl_sub (map butlast hy) (map tl hy)) (\<lambda>ay.
       arr3_op fl_add (arr3_div_scalar ax dx) (arr3_div_scalar ay dy)))"

definition write_divergence :: "fl \<Rightarrow> fl \<Rightarrow> 'z states_scheme \<Rightarrow> error + 'z states_scheme" where
  "write_divergence dx dy st =
     bind_res (flux_divergence (x_H st) (y_H st) dx dy) (\<lambda>d. Inr (st\<lparr>S := d\<rparr>))"

text \<open>\<open>nplike.max(nplike.maximum(plus.a, -minus.a))\<close> on the faces of one axis.\<close>

definition max_speed :: "arr2 \<Rightarrow> arr2 \<Rightarrow> error + fl" where
  "max_speed plus_a minus_a = bind_res (arr2_op np_maximum plus_a (arr2_neg minus_a)) np_max"

definition amax :: "'z states_scheme \<Rightarrow> error + fl" where
  "amax st = max_speed (x_plus_a st) (x_minus_a st)"

definition bmax :: "'z states_scheme \<Rightarrow> error + fl" where
  "bmax st = max_speed (y_plus_a st) (y_minus_a st)"

subsection \<open>\<open>torchswe/core/fvm.py\<close>\<close>

text \<open>
  Lines 62 to 75: the CFL step \<open>min(0.25*dx/amax, 0.25*dy/bmax)\<close>, then \<open>nan_to_num\<close> with
  \<open>runtime.dt\<close> for \<open>+inf\<close>; when the backend rejects that call, the handler replaces
  \<open>+inf\<close> itself, and re-raises any other \<open>TypeError\<close>.
\<close>

definition core_cfl :: "fl \<Rightarrow> fl \<Rightarrow> fl \<Rightarrow> fl \<Rightarrow> fl" where
  "core_cfl dx dy a b = py_min (fl_div (fl_mul (Fin (1/4)) dx) a) (fl_div (fl_mul (Fin (1/4)) dy) b)"

definition core_max_dt :: "nplike \<Rightarrow> fl \<Rightarrow> fl \<Rightarrow> fl \<Rightarrow> 'z states_scheme \<Rightarrow> error + fl" where
  "core_max_dt np dx dy rt_dt st =
     bind_res (amax st) (\<lambda>a.
     bind_res (bmax st) (\<lambda>b.
       let max_dt = core_cfl dx dy a b in
       (case nplike_nan_to_num np max_dt NaN rt_dt of
          Inr v \<Rightarrow> Inr v
        | Inl (TypeError msg) \<Rightarrow>
            if \<not> str_contains ''Wrong number of arguments'' msg then Inl (TypeError msg)
            else Inr (if max_dt = PInf then rt_dt else max_dt)
        | Inl e \<Rightarrow> Inl e)))"

definition core_prepare_rhs ::
  "nplike \<Rightarrow> 'z core_kernels \<Rightarrow> 'z states_scheme \<Rightarrow> 'z runtime \<Rightarrow> config
   \<Rightarrow> error + ('z states_scheme \<times> fl) \<times> event list" where
  "core_prepare_rhs np k st rt cfg =
     bind_res (call Reconstruct (\<lambda>s. core_reconstruct k s rt cfg) (st, [])) (\<lambda>p1.
     bind_res (call Local_speed (\<lambda>s. core_get_local_speed k s (params_gravity cfg)) p1) (\<lambda>p2.
     bind_res (call Discontinuous_flux (\<lambda>s. core_get_discontinuous_flux k s (params_gravity cfg)) p2) (\<lambda>p3.
     bind_res (call Central_flux (\<lambda>s. core_central_scheme k s (tol rt)) p3) (\<lambda>p4.
       let dx = delta_x (fst p4); dy = delta_y (fst p4) in
     bind_res (call Divergence (write_divergence dx dy) p4) (\<lambda>p5.
     bind_res (run_sources Explicit_source 0 (sources rt) p5) (\<lambda>p6.
     bind_res (core_max_dt np dx dy (dt rt) (fst p6)) (\<lambda>max_dt.
       Inr ((fst p6, max_dt), snd p6 @ [Cfl_dt]))))))))"

subsection \<open>\<open>torchswe/fvm.py\<close>\<close>

definition max_dt_cfl_one :: "fl \<Rightarrow> fl \<Rightarrow> 'z states_scheme \<Rightarrow> error + fl" where
  "max_dt_cfl_one dx dy st =
     bind_res (amax st) (\<lambda>a.
     bind_res (bmax st) (\<lambda>b.
       Inr (np_minimum (fl_div dx a) (fl_div dy b))))"

definition prepare_rhs ::
  "'z kernels \<Rightarrow> 'z states_scheme \<Rightarrow> 'z runtime \<Rightarrow> config
   \<Rightarrow> error + ('z states_scheme \<times> fl) \<times> event list" where
  "prepare_rhs k st rt cfg =
     bind_res (call Reconstruct (\<lambda>s. reconstruct k s rt cfg) (st, [])) (\<lambda>p1.
     bind_res (call Local_speed (get_local_speed k) p1) (\<lambda>p2.
     bind_res (call Discontinuous_flux (get_discontinuous_flux k) p2) (\<lambda>p3.
     bind_res (call Central_flux (central_scheme k) p3) (\<lambda>p4.
       let (dy, dx) = (if \<not> params_allow_async cfg then (delta_y (fst p4), delta_x (fst p4))
                       else delta_array (fst p4)) in
     bind_res (call Divergence (write_divergence dx dy) p4) (\<lambda>p5.
     bind_res (run_sources Explicit_source 0 (sources rt) p5) (\<lambda>p6.
     bind_res (run_sources Stiff_source 0 (stiff_sources rt) p6) (\<lambda>p7.
       if \<not> params_allow_async cfg then
         bind_res (max_dt_cfl_one dx dy (fst p7)) (\<lambda>max_dt.
           Inr ((fst p7, max_dt), snd p7 @ [Cfl_dt]))
       else Inr ((fst p7, temporal_dt cfg), snd p7))))))))"

subsection \<open>The stages without the log\<close>

text \<open>
  The same calls with no log kept, to name the intermediate states in the statements
  below: \<open>fold_sources\<close> is the loop over a list of source terms; \<open>core_stages\<close> and
  \<open>stages\<close> run everything before the step-size computation and return the states as the
  central scheme left them (whose cell sizes \<open>dx\<close>, \<open>dy\<close> are kept) and as the last source
  term left them.
\<close>

fun fold_sources :: "('s \<Rightarrow> error + 's) list \<Rightarrow> 's \<Rightarrow> error + 's" where
  "fold_sources [] s = Inr s"
| "fold_sources (f # fs) s = bind_res (f s) (fold_sources fs)"

definition core_stages ::
  "'z core_kernels \<Rightarrow> 'z states_scheme \<Rightarrow> 'z runtime \<Rightarrow> config
   \<Rightarrow> error + 'z states_scheme \<times> 'z states_scheme" where
  "core_stages k st rt cfg =
     bind_res (core_reconstruct k st rt cfg) (\<lambda>s1.
     bind_res (core_get_local_speed k s1 (params_gravity cfg)) (\<lambda>s2.
     bind_res (core_get_discontinuous_flux k s2 (params_gravity cfg)) (\<lambda>s3.
     bind_res (core_central_scheme k s3 (tol rt)) (\<lambda>s4.
     bind_res (write_divergence (delta_x s4) (delta_y s4) s4) (\<lambda>s5.
     bind_res (fold_sources (sources rt) s5) (\<lambda>s6. Inr (s4, s6)))))))"

definition cell_sizes :: "config \<Rightarrow> 'z states_scheme \<Rightarrow> fl \<times> fl" where
  "cell_sizes cfg st =
     (if \<not> params_allow_async cfg then (delta_y st, delta_x st) else delta_array st)"

definition stages ::
  "'z kernels \<Rightarrow> 'z states_scheme \<Rightarrow> 'z runtime \<Rightarrow> config
   \<Rightarrow> error + 'z states_scheme \<times> 'z states_scheme" where
  "stages k st rt cfg =
     bind_res (reconstruct k st rt cfg) (\<lambda>s1.
     bind_res (get_local_speed k s1) (\<lambda>s2.
     bind_res (get_discontinuous_flux k s2) (\<lambda>s3.
     bind_res (central_scheme k s3) (\<lambda>s4.
     bind_res (write_divergence (snd (cell_sizes cfg s4)) (fst (cell_sizes cfg s4)) s4) (\<lambda>s5.
     bind_res (fold_sources (sources rt) s5) (\<lambda>s6.
     bind_res (fold_sources (stiff_sources rt) s6) (\<lambda>s7. Inr (s4, s7))))))))"

definition stage_log :: "nat \<Rightarrow> nat \<Rightarrow> event list" where
  "stage_log n m =
     [Reconstruct, Local_speed, Discontinuous_flux, Central_flux, Divergence]
     @ map Explicit_source [0..<n] @ map Stiff_source [0..<m]"

section \<open>Ghost-cell updaters\<close>

text \<open>
  \<open>torchswe/bcs/__init__.py\<close>. The boundary configuration lists, for each of the four
  edges, one policy string and one value (a float or \<open>None\<close>) per component.
\<close>

datatype ornt = West | East | South | North

record single_bc =
  bc_types :: "string list"
  bc_values :: "fl option list"

record bcconfig =
  west :: single_bc
  east :: single_bc
  south :: single_bc
  north :: single_bc

definition orientations :: "ornt list" where
  "orientations = [West, East, South, North]"

text \<open>\<open>itemgetter(*orientations)(bcs)\<close>, one edge at a time.\<close>

fun get_bc :: "bcconfig \<Rightarrow> ornt \<Rightarrow> single_bc" where
  "get_bc bcs West = west bcs"
| "get_bc bcs East = east bcs"
| "get_bc bcs South = south bcs"
| "get_bc bcs North = north bcs"

text \<open>
  The four factories are compiled modules outside the sources at hand. What a setup
  function appends to \<open>funcs\<close> is recorded as the factory call that made it: the factory, the
  edge, the component (\<open>-1\<close> for all of them at once) and the value where the factory
  takes one. The states and the topography each closure captures are the same for all of
  them and are left out.
\<close>

datatype bc_func =
    outflow_bc_factory ornt int
  | linear_extrap_bc_factory ornt int
  | const_val_bc_factory ornt int "fl option"
  | inflow_bc_factory ornt int "fl option"

fun func_ornt :: "bc_func \<Rightarrow> ornt" where
  "func_ornt (outflow_bc_factory e i) = e"
| "func_ornt (linear_extrap_bc_factory e i) = e"
| "func_ornt (const_val_bc_factory e i v) = e"
| "func_ornt (inflow_bc_factory e i v) = e"

fun func_component :: "bc_func \<Rightarrow> int" where
  "func_component (outflow_bc_factory e i) = i"
| "func_component (linear_extrap_bc_factory e i) = i"
| "func_component (const_val_bc_factory e i v) = i"
| "func_component (inflow_bc_factory e i v) = i"

text \<open>
  The returned \<open>updater\<close>: every installed function is called in list order. What a call
  does to the states is the parameter \<open>run\<close>.
\<close>

definition updater :: "(bc_func \<Rightarrow> 's \<Rightarrow> 's) \<Rightarrow> bc_func list \<Rightarrow> 's \<Rightarrow> 's" where
  "updater run funcs soln = foldl (\<lambda>s f. run f s) soln funcs"

subsection \<open>\<open>get_ghost_cell_updaters\<close>\<close>

text \<open>
  Lines 130 to 152: \<open>for i, (bctp, bcv) in enumerate(zip(bc.types, bc.values))\<close>, the
  components numbered from \<open>i\<close>. An unknown policy raises \<open>ValueError\<close>.
\<close>

fun component_funcs :: "ornt \<Rightarrow> nat \<Rightarrow> (string \<times> fl option) list \<Rightarrow> error + bc_func list" where
  "component_funcs e i [] = Inr []"
| "component_funcs e i ((bctp, bcv) # rest) =
     (if bctp = ''outflow'' then
        bind_res (component_funcs e (Suc i) rest) (\<lambda>fs. Inr (outflow_bc_factory e (int i) # fs))
      else if bctp = ''extrap'' then
        bind_res (component_funcs e (Suc i) rest) (\<lambda>fs. Inr (linear_extrap_bc_factory e (int i) # fs))
      else if bctp = ''const'' then
        bind_res (component_funcs e (Suc i) rest) (\<lambda>fs. Inr (const_val_bc_factory e (int i) bcv # fs))
      else if bctp = ''inflow'' then
        bind_res (component_funcs e (Suc i) rest) (\<lambda>fs. Inr (inflow_bc_factory e (int i) bcv # fs))
      else Inl (ValueError (bctp @ '' is not recognized.'')))"

text \<open>
  One pass of the loop over the edges (lines 119 to 152): \<open>bc.types[0]\<close> raises on an empty
  tuple; a first policy \<open>periodic\<close> ends the pass at once.
\<close>

definition edge_funcs :: "ornt \<Rightarrow> single_bc \<Rightarrow> error + bc_func list" where
  "edge_funcs e bc =
     (case bc_types bc of
        [] \<Rightarrow> Inl (IndexError ''tuple index out of range'')
      | t0 # _ \<Rightarrow>
          if t0 = ''periodic'' then Inr []
          else component_funcs e 0 (zip (bc_types bc) (bc_values bc)))"

fun collect_funcs :: "bcconfig \<Rightarrow> ornt list \<Rightarrow> error + bc_func list" where
  "collect_funcs bcs [] = Inr []"
| "collect_funcs bcs (e # es) =
     bind_res (edge_funcs e (get_bc bcs e)) (\<lambda>fs.
     bind_res (collect_funcs bcs es) (\<lambda>gs. Inr (fs @ gs)))"

text \<open>
  \<open>bcs.check()\<close> and \<open>states.check()\<close> belong to classes outside the sources at hand: they
  are parameters that return or raise. The result is the list \<open>updater.funcs\<close>.
\<close>

definition get_ghost_cell_updaters ::
  "(bcconfig \<Rightarrow> error + unit) \<Rightarrow> ('s \<Rightarrow> error + unit) \<Rightarrow> 's \<Rightarrow> bcconfig \<Rightarrow> error + bc_func list" where
  "get_ghost_cell_updaters bcs_check states_check states bcs =
     bind_res (bcs_check bcs) (\<lambda>_.
     bind_res (collect_funcs bcs orientations) (\<lambda>funcs.
     bind_res (states_check states) (\<lambda>_. Inr funcs)))"

subsection \<open>\<open>init_bc\<close> and \<open>setup_bc\<close>\<close>

text \<open>
  \<open>bc_helper\<close> (lines 53 to 63) appends a function for \<open>extrap\<close> and \<open>const\<close> and prints a
  line for anything else. The model returns what is appended and what is printed; the
  records sent to the logger are left out, here and above.
\<close>

definition bc_helper :: "ornt \<Rightarrow> string \<Rightarrow> fl option \<Rightarrow> int \<Rightarrow> bc_func list \<times> string list" where
  "bc_helper e bctp bcv components =
     (if bctp = ''extrap'' then ([linear_extrap_bc_factory e components], [])
      else if bctp = ''const'' then ([const_val_bc_factory e components bcv], [])
      else ([], [''ERROR: Unsupported boundary condition.'']))"

fun helper_loop :: "ornt \<Rightarrow> nat \<Rightarrow> (string \<times> fl option) list \<Rightarrow> bc_func list \<times> string list" where
  "helper_loop e i [] = ([], [])"
| "helper_loop e i ((bctp, bcv) # rest) =
     (let (fs, out) = bc_helper e bctp bcv (int i);
          (gs, out') = helper_loop e (Suc i) rest
      in (fs @ gs, out @ out'))"

text \<open>
  \<open>len(set(xs))\<close> counts the elements that differ under \<open>==\<close>: it is \<open>length (remdups xs)\<close>
  once the two zeros, which compare equal and hash alike, are made one.
\<close>

fun set_key :: "fl option \<Rightarrow> fl option" where
  "set_key (Some NZero) = Some (Fin 0)"
| "set_key v = v"

text \<open>One pass of the loop of lines 65 to 72.\<close>

definition init_bc_edge :: "bool \<Rightarrow> ornt \<Rightarrow> single_bc \<Rightarrow> bc_func list \<times> string list" where
  "init_bc_edge vectorize_bc e bc =
     (if vectorize_bc \<and> length (remdups (bc_types bc)) = 1 \<and>
         length (remdups (map set_key (bc_values bc))) = 1
      then bc_helper e (hd (bc_types bc)) (hd (bc_values bc)) (- 1)
      else helper_loop e 0 (zip (bc_types bc) (bc_values bc)))"

fun init_bc_edges :: "bool \<Rightarrow> bcconfig \<Rightarrow> ornt list \<Rightarrow> bc_func list \<times> string list" where
  "init_bc_edges vectorize_bc bcs [] = ([], [])"
| "init_bc_edges vectorize_bc bcs (e # es) =
     (let (fs, out) = init_bc_edge vectorize_bc e (get_bc bcs e);
          (gs, out') = init_bc_edges vectorize_bc bcs es
      in (fs @ gs, out @ out'))"

definition init_bc :: "bcconfig \<Rightarrow> bool \<Rightarrow> bc_func list \<times> string list" where
  "init_bc bcs vectorize_bc = init_bc_edges vectorize_bc bcs orientations"

text \<open>\<open>setup_bc\<close> returns the updater over the functions of \<open>init_bc\<close>; none of them is \<open>None\<close>.\<close>

definition setup_bc :: "bcconfig \<Rightarrow> bool \<Rightarrow> bc_func list \<times> string list" where
  "setup_bc bcs vectorize_bc = init_bc bcs vectorize_bc"

text \<open>The function the same factory makes for the same edge and value, for component \<open>j\<close>.\<close>

fun with_component :: "bc_func \<Rightarrow> int \<Rightarrow> bc_func" where
  "with_component (outflow_bc_factory e i) j = outflow_bc_factory e j"
| "with_component (linear_extrap_bc_factory e i) j = linear_extrap_bc_factory e j"
| "with_component (const_val_bc_factory e i v) j = const_val_bc_factory e j v"
| "with_component (inflow_bc_factory e i v) j = inflow_bc_factory e j v"

text \<open>
  Modelled from the spec: the factories of \<open>torchswe.bcs\<close> are not among the sources; the
  spec says of the vectorized mode that it "collapses all four components of one edge into
  a single update" that "must be functionally identical to the per-component loop". So
  with \<open>write\<close> for what a function made for one component does to the states, and \<open>n\<close>
  components to an edge, a function made for component \<open>-1\<close> does what the functions of the
  same factory, edge and value do for the components \<open>0\<close> to \<open>n - 1\<close>, called in that order.
\<close>

definition run_func :: "(bc_func \<Rightarrow> 's \<Rightarrow> 's) \<Rightarrow> nat \<Rightarrow> bc_func \<Rightarrow> 's \<Rightarrow> 's" where
  "run_func write n f soln =
     (if func_component f = - 1
      then updater write (map (\<lambda>i. with_component f (int i)) [0..<n]) soln
      else write f soln)"

section \<open>The central numerical flux\<close>

text \<open>
  Modelled from the spec: the kernel \<open>central_scheme\<close> (\<open>torchswe.core.flux\<close>,
  \<open>torchswe.kernels\<close>) is not among the sources. Section 4.4 of the spec gives the flux of
  one component at one face,
  \<open>H = (a+ F- - a- F+) / (a+ - a-) + (a+ a-) / (a+ - a-) (q+ - q-)\<close>, and the fallback: when
  \<open>a+ - a-\<close> is smaller than the configured tolerance, the arithmetic mean of the one-sided
  fluxes.
\<close>

definition central_flux :: "fl \<Rightarrow> fl \<Rightarrow> fl \<Rightarrow> fl \<Rightarrow> fl \<Rightarrow> fl \<Rightarrow> fl \<Rightarrow> fl" where
  "central_flux tolerance a_plus a_minus F_plus F_minus q_plus q_minus =
     (if fl_lt (fl_sub a_plus a_minus) tolerance
      then fl_div (fl_add F_minus F_plus) (Fin 2)
      else fl_add
             (fl_div (fl_sub (fl_mul a_plus F_minus) (fl_mul a_minus F_plus)) (fl_sub a_plus a_minus))
             (fl_mul (fl_div (fl_mul a_plus a_minus) (fl_sub a_plus a_minus)) (fl_sub q_plus q_minus)))"

section \<open>The case-data generators\<close>

text \<open>
  \<open>cases/*/create_data.py\<close> compute coordinates and initial conditions once, from the case's
  \<open>config.yaml\<close>. Here a float is a real number: with the values the theorems admit no
  infinity or NaN arises, and rounding is not modelled.
\<close>

text \<open>
  \<open>numpy.linspace(start, stop, num)\<close> with the end point included: \<open>num\<close> samples
  \<open>start + i * step\<close>, the last one set to \<open>stop\<close>; a negative \<open>num\<close> raises.
\<close>

definition linspace :: "real \<Rightarrow> real \<Rightarrow> int \<Rightarrow> error + real list" where
  "linspace start stop num =
     (if num < 0 then Inl (ValueError ''Number of samples must be non-negative.'')
      else
        let n = nat num; d = n - 1; step = (stop - start) / real d;
            y = map (\<lambda>i. if d = 0 then start else start + real i * step) [0..<n]
        in Inr (if 1 < n then y[n - 1 := stop] else y))"

text \<open>\<open>(x[:-1] + x[1:]) / 2.\<close>\<close>

definition cell_centers :: "real list \<Rightarrow> real list" where
  "cell_centers x = map2 (\<lambda>a b. (a + b) / 2) (butlast x) (tl x)"

text \<open>Python's \<open>xs[i]\<close> for a natural index.\<close>

definition item :: "'a list \<Rightarrow> nat \<Rightarrow> error + 'a" where
  "item xs i = (if i < length xs then Inr (xs ! i) else Inl (IndexError ''list index out of range''))"

record spatial =
  domain :: "real list"
  discretization :: "int list"

text \<open>
  Lines 53 to 72 of the generator of Delestre et al. and lines 30 to 50 of the one of
  Xing and Shu, which are the same: the vertices \<open>x\<close>, \<open>y\<close> and the cell centres \<open>xc\<close>, \<open>yc\<close>.
\<close>

definition coordinates :: "spatial \<Rightarrow> error + (real list \<times> real list \<times> real list \<times> real list)" where
  "coordinates sp =
     bind_res (item (domain sp) 0) (\<lambda>x0.
     bind_res (item (domain sp) 1) (\<lambda>x1.
     bind_res (item (discretization sp) 0) (\<lambda>nx.
     bind_res (linspace x0 x1 (nx + 1)) (\<lambda>x.
     bind_res (item (domain sp) 2) (\<lambda>y0.
     bind_res (item (domain sp) 3) (\<lambda>y1.
     bind_res (item (discretization sp) 1) (\<lambda>ny.
     bind_res (linspace y0 y1 (ny + 1)) (\<lambda>y.
       Inr (x, y, cell_centers x, cell_centers y)))))))))"

text \<open>
  Modelled from the spec: the class \<open>Config\<close> (\<open>torchswe.utils.config\<close>) is not among the
  sources; the spec leaves loading and validating the configuration to it and requires of
  the grid that "\<open>\<Delta>x, \<Delta>y > 0\<close>". A validated \<open>config.spatial\<close> is taken to hold four domain
  bounds, each lower bound below its upper bound, and two cell counts that are not
  negative.
\<close>

definition valid_spatial :: "spatial \<Rightarrow> bool" where
  "valid_spatial sp \<longleftrightarrow>
     length (domain sp) = 4 \<and> domain sp ! 0 < domain sp ! 1 \<and> domain sp ! 2 < domain sp ! 3 \<and>
     length (discretization sp) = 2 \<and> 0 \<le> discretization sp ! 0 \<and> 0 \<le> discretization sp ! 1"

text \<open>
  \<open>topo\<close> and \<open>exact_soln\<close> of the generator of Delestre et al. (lines 21 to 41), at one
  point; on arrays NumPy applies them element by element. \<open>h[h < 0.] = 0.\<close> clips the depth.
\<close>

definition topo :: "real \<Rightarrow> real \<Rightarrow> real \<Rightarrow> real \<Rightarrow> real \<Rightarrow> real" where
  "topo x y h0 L a =
     (let r = sqrt ((x - L / 2) ^ 2 + (y - L / 2) ^ 2) in - h0 * (1 - (r / a) ^ 2))"

definition exact_soln ::
  "real \<Rightarrow> real \<Rightarrow> real \<Rightarrow> real \<Rightarrow> real \<Rightarrow> real \<Rightarrow> real \<Rightarrow> real \<Rightarrow> real \<times> real \<times> real" where
  "exact_soln x y t g h0 L a eta =
     (let omega = sqrt (2 * h0 * g) / a;
          z = topo x y h0 L a;
          cot = cos (omega * t);
          sot = sin (omega * t);
          h = eta * h0 * (2 * (x - L / 2) * cot + 2 * (y - L / 2) * sot - eta) / (a * a) - z;
          h = (if h < 0 then 0 else h)
      in (h + z, - h * eta * omega * sot, h * eta * omega * cot))"

text \<open>The default arguments \<open>g=9.81, h0=0.1, L=4., a=1., eta=0.5\<close>.\<close>

definition exact_soln_default :: "real \<Rightarrow> real \<Rightarrow> real \<Rightarrow> real \<times> real \<times> real" where
  "exact_soln_default x y t = exact_soln x y t (981 / 100) (1 / 10) 4 1 (1 / 2)"

section \<open>A small example\<close>

text \<open>
  One cell with its two x-faces and two y-faces; kernels that return the states as they
  are; an explicit source that adds one to every entry of \<open>S\<close> and a stiff source that sets
  \<open>SS\<close>. \<open>ex_still\<close> is the same cell with every wave speed \<open>+0.0\<close>, and \<open>ex_still_neg\<close> the
  same with \<open>-0.0\<close> for the speeds of the minus side.
\<close>

definition ex_states :: states where
  "ex_states = \<lparr>x_plus_a = [[Fin 1, Fin 2]], x_minus_a = [[Fin (- 3), Fin 0]],
     y_plus_a = [[Fin 0], [Fin 1]], y_minus_a = [[Fin 0], [Fin (- 4)]],
     x_H = [[[Fin 1, Fin 3]]], y_H = [[[Fin 2], [Fin 5]]], S = [], SS = [],
     delta_x = Fin 1, delta_y = Fin 2, delta_array = (Fin 2, Fin 1)\<rparr>"

definition ex_still :: states where
  "ex_still = ex_states\<lparr>x_plus_a := [[Fin 0, Fin 0]], x_minus_a := [[Fin 0, Fin 0]],
     y_plus_a := [[Fin 0], [Fin 0]], y_minus_a := [[Fin 0], [Fin 0]]\<rparr>"

definition ex_still_neg :: states where
  "ex_still_neg = ex_still\<lparr>x_minus_a := [[NZero, NZero]], y_minus_a := [[NZero], [NZero]]\<rparr>"

definition ex_kernels :: "unit kernels" where
  "ex_kernels = \<lparr>reconstruct = (\<lambda>s rt cfg. Inr s), get_local_speed = Inr,
     get_discontinuous_flux = Inr, central_scheme = Inr\<rparr>"

definition ex_core_kernels :: "unit core_kernels" where
  "ex_core_kernels = \<lparr>core_reconstruct = (\<lambda>s rt cfg. Inr s), core_get_local_speed = (\<lambda>s g. Inr s),
     core_get_discontinuous_flux = (\<lambda>s g. Inr s), core_central_scheme = (\<lambda>s t. Inr s)\<rparr>"

definition ex_source :: "states \<Rightarrow> error + states" where
  "ex_source s = Inr (s\<lparr>S := map (map (map (fl_add (Fin 1)))) (S s)\<rparr>)"

definition ex_stiff :: "states \<Rightarrow> error + states" where
  "ex_stiff s = Inr (s\<lparr>SS := [[[Fin 2]]]\<rparr>)"

definition ex_runtime :: "unit runtime" where
  "ex_runtime = \<lparr>sources = [ex_source], stiff_sources = [ex_stiff], tol = Fin (1 / 10 ^ 12), dt = Fin 5\<rparr>"

definition ex_config :: "bool \<Rightarrow> config" where
  "ex_config async = \<lparr>params_allow_async = async, params_gravity = Fin (981 / 100), temporal_dt = Fin 7\<rparr>"

subsection \<open>Boundary configurations\<close>

text \<open>
  States that count the writes to each component of each edge's ghost margin: \<open>ex_write\<close>
  is what a function made for one component does to them. \<open>passes\<close> is a check that
  returns.
\<close>

definition ex_write :: "bc_func \<Rightarrow> (ornt \<Rightarrow> nat \<Rightarrow> nat) \<Rightarrow> (ornt \<Rightarrow> nat \<Rightarrow> nat)" where
  "ex_write f s =
     (\<lambda>e i. if e = func_ornt f \<and> func_component f = int i then Suc (s e i) else s e i)"

definition ex_periodic :: single_bc where
  "ex_periodic = \<lparr>bc_types = [''periodic'', ''periodic'', ''periodic''], bc_values = [None, None, None]\<rparr>"

definition ex_bcs :: bcconfig where
  "ex_bcs = \<lparr>west = ex_periodic, east = ex_periodic,
     south = \<lparr>bc_types = [''outflow'', ''extrap'', ''const''], bc_values = [None, None, Some (Fin 0)]\<rparr>,
     north = \<lparr>bc_types = [''inflow'', ''outflow'', ''outflow''], bc_values = [Some (Fin 1), None, None]\<rparr>\<rparr>"

definition ex_funcs :: "bc_func list" where
  "ex_funcs = [outflow_bc_factory South 0, linear_extrap_bc_factory South 1,
     const_val_bc_factory South 2 (Some (Fin 0)), inflow_bc_factory North 0 (Some (Fin 1)),
     outflow_bc_factory North 1, outflow_bc_factory North 2]"

definition ex_bcs_mixed :: bcconfig where
  "ex_bcs_mixed = ex_bcs\<lparr>west := \<lparr>bc_types = [''periodic'', ''bogus'', ''outflow''],
     bc_values = [None, None, None]\<rparr>\<rparr>"

definition ex_bcs_unknown :: bcconfig where
  "ex_bcs_unknown = \<lparr>west = \<lparr>bc_types = [''bogus'', ''extrap'', ''extrap''], bc_values = [None, None, None]\<rparr>,
     east = \<lparr>bc_types = [''extrap'', ''extrap'', ''extrap''], bc_values = [None, None, None]\<rparr>,
     south = \<lparr>bc_types = [''const'', ''const'', ''const''], bc_values = [Some (Fin 0), Some (Fin 0), Some (Fin 0)]\<rparr>,
     north = \<lparr>bc_types = [''const'', ''const'', ''const''], bc_values = [Some (Fin 1), Some (Fin 0), Some (Fin 0)]\<rparr>\<rparr>"

definition passes :: "'a \<Rightarrow> error + unit" where
  "passes x = Inr ()"

subsection \<open>A grid\<close>

definition ex_spatial :: spatial where
  "ex_spatial = \<lparr>domain = [0, 4, 0, 2], discretization = [2, 1]\<rparr>"

section \<open>Properties of the orchestrator\<close>

lemma bind_res_Inr_iff: "bind_res m f = Inr y \<longleftrightarrow> (\<exists>x. m = Inr x \<and> f x = Inr y)"
  by (cases m) (simp_all add: bind_res_def)

lemma bind_res_Inr [simp]: "bind_res (Inr x) f = f x"
  by (simp add: bind_res_def)

lemma bind_res_Inl [simp]: "bind_res (Inl e) f = Inl e"
  by (simp add: bind_res_def)

lemma call_Inr_iff: "call ev f p = Inr q \<longleftrightarrow> (\<exists>s. f (fst p) = Inr s \<and> q = (s, snd p @ [ev]))"
  by (auto simp: call_def bind_res_Inr_iff)

lemma run_sources_Inr_iff:
  "run_sources mk i fs p = Inr q \<longleftrightarrow>
     (\<exists>s. fold_sources fs (fst p) = Inr s \<and> q = (s, snd p @ map mk [i..<i + length fs]))"
proof (induction fs arbitrary: i p)
  case Nil
  show ?case by (cases p) auto
next
  case (Cons f fs)
  have up: "map mk [i..<i + length (f # fs)] = mk i # map mk [Suc i..<Suc i + length fs]"
    by (simp add: upt_conv_Cons del: upt_Suc)
  have "run_sources mk i (f # fs) p = Inr q \<longleftrightarrow>
      (\<exists>s1. f (fst p) = Inr s1 \<and> run_sources mk (Suc i) fs (s1, snd p @ [mk i]) = Inr q)"
    by (auto simp: bind_res_Inr_iff call_Inr_iff)
  also have "\<dots> \<longleftrightarrow> (\<exists>s1. f (fst p) = Inr s1 \<and>
      (\<exists>s. fold_sources fs s1 = Inr s \<and> q = (s, snd p @ map mk [i..<i + length (f # fs)])))"
    unfolding Cons.IH up by simp
  also have "\<dots> \<longleftrightarrow> (\<exists>s. fold_sources (f # fs) (fst p) = Inr s \<and>
      q = (s, snd p @ map mk [i..<i + length (f # fs)]))"
    by (auto simp: bind_res_Inr_iff)
  finally show ?case .
qed

lemma write_divergence_Inr_iff:
  "write_divergence dx dy st = Inr s \<longleftrightarrow>
     (\<exists>d. flux_divergence (x_H st) (y_H st) dx dy = Inr d \<and> s = st\<lparr>S := d\<rparr>)"
  by (auto simp: write_divergence_def bind_res_Inr_iff)

lemma prepare_rhs_Inr_iff:
  "prepare_rhs k st rt cfg = Inr ((st', max_dt), tr) \<longleftrightarrow>
     (\<exists>s1 s2 s3 s4 d s6.
        reconstruct k st rt cfg = Inr s1 \<and>
        get_local_speed k s1 = Inr s2 \<and>
        get_discontinuous_flux k s2 = Inr s3 \<and>
        central_scheme k s3 = Inr s4 \<and>
        flux_divergence (x_H s4) (y_H s4) (snd (cell_sizes cfg s4)) (fst (cell_sizes cfg s4)) = Inr d \<and>
        fold_sources (sources rt) (s4\<lparr>S := d\<rparr>) = Inr s6 \<and>
        fold_sources (stiff_sources rt) s6 = Inr st' \<and>
        (if params_allow_async cfg then max_dt = temporal_dt cfg
         else max_dt_cfl_one (snd (cell_sizes cfg s4)) (fst (cell_sizes cfg s4)) st' = Inr max_dt) \<and>
        tr = stage_log (length (sources rt)) (length (stiff_sources rt))
             @ (if params_allow_async cfg then [] else [Cfl_dt]))"
  unfolding prepare_rhs_def stage_log_def cell_sizes_def
  by (cases "delta_array s4")
     (auto simp: bind_res_Inr_iff call_Inr_iff run_sources_Inr_iff write_divergence_Inr_iff
       Let_def split_def)

lemma core_prepare_rhs_Inr_iff:
  "core_prepare_rhs np k st rt cfg = Inr ((st', max_dt), tr) \<longleftrightarrow>
     (\<exists>s1 s2 s3 s4 d.
        core_reconstruct k st rt cfg = Inr s1 \<and>
        core_get_local_speed k s1 (params_gravity cfg) = Inr s2 \<and>
        core_get_discontinuous_flux k s2 (params_gravity cfg) = Inr s3 \<and>
        core_central_scheme k s3 (tol rt) = Inr s4 \<and>
        flux_divergence (x_H s4) (y_H s4) (delta_x s4) (delta_y s4) = Inr d \<and>
        fold_sources (sources rt) (s4\<lparr>S := d\<rparr>) = Inr st' \<and>
        core_max_dt np (delta_x s4) (delta_y s4) (dt rt) st' = Inr max_dt \<and>
        tr = stage_log (length (sources rt)) 0 @ [Cfl_dt])"
  unfolding core_prepare_rhs_def stage_log_def
  by (auto simp: bind_res_Inr_iff call_Inr_iff run_sources_Inr_iff write_divergence_Inr_iff
       Let_def)

lemma core_stages_Inr_iff:
  "core_stages k st rt cfg = Inr (s4, s6) \<longleftrightarrow>
     (\<exists>s1 s2 s3 d.
        core_reconstruct k st rt cfg = Inr s1 \<and>
        core_get_local_speed k s1 (params_gravity cfg) = Inr s2 \<and>
        core_get_discontinuous_flux k s2 (params_gravity cfg) = Inr s3 \<and>
        core_central_scheme k s3 (tol rt) = Inr s4 \<and>
        flux_divergence (x_H s4) (y_H s4) (delta_x s4) (delta_y s4) = Inr d \<and>
        fold_sources (sources rt) (s4\<lparr>S := d\<rparr>) = Inr s6)"
  unfolding core_stages_def
  by (auto simp: bind_res_Inr_iff write_divergence_Inr_iff)

lemma stages_Inr_iff:
  "stages k st rt cfg = Inr (s4, s7) \<longleftrightarrow>
     (\<exists>s1 s2 s3 d s6.
        reconstruct k st rt cfg = Inr s1 \<and>
        get_local_speed k s1 = Inr s2 \<and>
        get_discontinuous_flux k s2 = Inr s3 \<and>
        central_scheme k s3 = Inr s4 \<and>
        flux_divergence (x_H s4) (y_H s4) (snd (cell_sizes cfg s4)) (fst (cell_sizes cfg s4)) = Inr d \<and>
        fold_sources (sources rt) (s4\<lparr>S := d\<rparr>) = Inr s6 \<and>
        fold_sources (stiff_sources rt) s6 = Inr s7)"
  unfolding stages_def
  by (auto simp: bind_res_Inr_iff write_divergence_Inr_iff)

lemma core_prepare_rhs_stages:
  "core_prepare_rhs np k st rt cfg = Inr ((st', max_dt), tr) \<longleftrightarrow>
     (\<exists>s4. core_stages k st rt cfg = Inr (s4, st') \<and>
        core_max_dt np (delta_x s4) (delta_y s4) (dt rt) st' = Inr max_dt \<and>
        tr = stage_log (length (sources rt)) 0 @ [Cfl_dt])"
  unfolding core_prepare_rhs_Inr_iff core_stages_Inr_iff by blast

lemma prepare_rhs_stages:
  "prepare_rhs k st rt cfg = Inr ((st', max_dt), tr) \<longleftrightarrow>
     (\<exists>s4. stages k st rt cfg = Inr (s4, st') \<and>
        (if params_allow_async cfg then max_dt = temporal_dt cfg
         else max_dt_cfl_one (snd (cell_sizes cfg s4)) (fst (cell_sizes cfg s4)) st' = Inr max_dt) \<and>
        tr = stage_log (length (sources rt)) (length (stiff_sources rt))
             @ (if params_allow_async cfg then [] else [Cfl_dt]))"
  unfolding prepare_rhs_Inr_iff stages_Inr_iff by blast

lemmas ex_defs = ex_states_def ex_still_def ex_still_neg_def ex_kernels_def ex_core_kernels_def ex_source_def ex_stiff_def
  ex_runtime_def ex_config_def

lemmas eval_defs = call_def write_divergence_def flux_divergence_def arr3_op_def arr2_op_def
  broadcast_def arr3_div_scalar_def arr2_neg_def np_max_def np_maximum_def np_minimum_def
  py_min_def fl_sub_def fl_mul_def fl_div_def is_zero_def is_inf_def zero_of_def inf_of_def
  max_speed_def amax_def bmax_def core_cfl_def core_max_dt_def
  max_dt_cfl_one_def cell_sizes_def stage_log_def

lemma core_max_dt_value:
  assumes "amax st = Inr a" and "bmax st = Inr b"
  shows "core_max_dt np dx dy rdt st =
    Inr (case core_cfl dx dy a b of
           PInf \<Rightarrow> rdt
         | NInf \<Rightarrow> (case np of NumPy \<Rightarrow> Fin (- float_max) | CuPy_pre_v10 \<Rightarrow> NInf)
         | v \<Rightarrow> v)"
  using assms by (cases np; cases "core_cfl dx dy a b") (simp_all add: core_max_dt_def)

lemma max_dt_cfl_one_value:
  assumes "amax st = Inr a" and "bmax st = Inr b"
  shows "max_dt_cfl_one dx dy st = Inr (np_minimum (fl_div dx a) (fl_div dy b))"
  using assms by (simp add: max_dt_cfl_one_def)

text \<open>
  Claim C1, as the code has it. \<open>core/fvm.py\<close>: when the stages succeed, both maxima
  exist and \<open>min(0.25*dx/amax, 0.25*dy/bmax)\<close> is not \<open>-inf\<close>, \<open>prepare_rhs\<close> returns that
  minimum, with \<open>runtime.dt\<close> in its place when it is \<open>+inf\<close>. \<open>fvm.py\<close>: without
  \<open>allow_async\<close> it returns \<open>minimum(dx/amax, dy/bmax)\<close>, the step for a CFL number of one
  with no factor 0.25; with \<open>allow_async\<close> it returns \<open>config.temporal.dt\<close>.
\<close>

theorem prepare_rhs_max_dt:
  "(core_stages ck st rt cfg = Inr (c4, c6) \<and> amax c6 = Inr ca \<and> bmax c6 = Inr cb \<and>
      core_cfl (delta_x c4) (delta_y c4) ca cb \<noteq> NInf
    \<longrightarrow> (\<exists>tr. core_prepare_rhs np ck st rt cfg =
          Inr ((c6, if core_cfl (delta_x c4) (delta_y c4) ca cb = PInf then dt rt
                    else core_cfl (delta_x c4) (delta_y c4) ca cb), tr)))
   \<and> (stages k st rt cfg = Inr (s4, s7) \<and> amax s7 = Inr a \<and> bmax s7 = Inr b \<and>
      \<not> params_allow_async cfg
    \<longrightarrow> (\<exists>tr. prepare_rhs k st rt cfg =
          Inr ((s7, np_minimum (fl_div (delta_x s4) a) (fl_div (delta_y s4) b)), tr)))
   \<and> (stages k st rt cfg = Inr (s4, s7) \<and> params_allow_async cfg
    \<longrightarrow> (\<exists>tr. prepare_rhs k st rt cfg = Inr ((s7, temporal_dt cfg), tr)))"
proof (intro conjI impI)
  let ?m = "core_cfl (delta_x c4) (delta_y c4) ca cb"
  assume h: "core_stages ck st rt cfg = Inr (c4, c6) \<and> amax c6 = Inr ca \<and> bmax c6 = Inr cb \<and>
      ?m \<noteq> NInf"
  then have "core_max_dt np (delta_x c4) (delta_y c4) (dt rt) c6 =
      Inr (if ?m = PInf then dt rt else ?m)"
    by (cases ?m) (simp_all add: core_max_dt_value)
  with h show "\<exists>tr. core_prepare_rhs np ck st rt cfg =
      Inr ((c6, if ?m = PInf then dt rt else ?m), tr)"
    unfolding core_prepare_rhs_stages by blast
next
  assume h: "stages k st rt cfg = Inr (s4, s7) \<and> amax s7 = Inr a \<and> bmax s7 = Inr b \<and>
      \<not> params_allow_async cfg"
  then have "max_dt_cfl_one (delta_x s4) (delta_y s4) s7 =
      Inr (np_minimum (fl_div (delta_x s4) a) (fl_div (delta_y s4) b))"
    by (simp add: max_dt_cfl_one_value)
  with h show "\<exists>tr. prepare_rhs k st rt cfg =
      Inr ((s7, np_minimum (fl_div (delta_x s4) a) (fl_div (delta_y s4) b)), tr)"
    unfolding prepare_rhs_stages by (auto simp: cell_sizes_def)
next
  assume "stages k st rt cfg = Inr (s4, s7) \<and> params_allow_async cfg"
  then show "\<exists>tr. prepare_rhs k st rt cfg = Inr ((s7, temporal_dt cfg), tr)"
    unfolding prepare_rhs_stages by auto
qed

lemma ex_core_stages:
  "core_stages ex_core_kernels ex_states ex_runtime (ex_config False) =
     Inr (ex_states, ex_states\<lparr>S := [[[Fin (- 5 / 2)]]]\<rparr>)"
  by (simp add: core_stages_def ex_defs eval_defs)

lemma ex_stages:
  "stages ex_kernels ex_states ex_runtime (ex_config async) =
     Inr (ex_states, ex_states\<lparr>S := [[[Fin (- 5 / 2)]]], SS := [[[Fin 2]]]\<rparr>)"
  by (simp add: stages_def ex_defs eval_defs)

lemma ex_amax: "amax (ex_states\<lparr>S := s, SS := ss\<rparr>) = Inr (Fin 3)" "amax (ex_states\<lparr>S := s\<rparr>) = Inr (Fin 3)"
  by (simp_all add: ex_defs eval_defs)

lemma ex_bmax: "bmax (ex_states\<lparr>S := s, SS := ss\<rparr>) = Inr (Fin 4)" "bmax (ex_states\<lparr>S := s\<rparr>) = Inr (Fin 4)"
  by (simp_all add: ex_defs eval_defs)

text \<open>
  The theorem at the example: the maxima are 3 and 4 and the cell sizes 1 and 2, so the core
  variant returns 1/12, the \<open>fvm.py\<close> variant 1/3, and 7 with \<open>allow_async\<close>.
\<close>

theorem prepare_rhs_max_dt_witness:
  "(\<exists>tr. core_prepare_rhs NumPy ex_core_kernels ex_states ex_runtime (ex_config False) =
      Inr ((ex_states\<lparr>S := [[[Fin (- 5 / 2)]]]\<rparr>, Fin (1 / 12)), tr))
   \<and> (\<exists>tr. prepare_rhs ex_kernels ex_states ex_runtime (ex_config False) =
      Inr ((ex_states\<lparr>S := [[[Fin (- 5 / 2)]]], SS := [[[Fin 2]]]\<rparr>, Fin (1 / 3)), tr))
   \<and> (\<exists>tr. prepare_rhs ex_kernels ex_states ex_runtime (ex_config True) =
      Inr ((ex_states\<lparr>S := [[[Fin (- 5 / 2)]]], SS := [[[Fin 2]]]\<rparr>, Fin 7), tr))"
proof -
  let ?c6 = "ex_states\<lparr>S := [[[Fin (- 5 / 2)]]]\<rparr>"
  let ?s7 = "ex_states\<lparr>S := [[[Fin (- 5 / 2)]]], SS := [[[Fin 2]]]\<rparr>"
  have cfl: "core_cfl (delta_x ex_states) (delta_y ex_states) (Fin 3) (Fin 4) = Fin (1 / 12)"
    by (simp add: ex_defs eval_defs)
  have mn: "np_minimum (fl_div (delta_x ex_states) (Fin 3)) (fl_div (delta_y ex_states) (Fin 4)) = Fin (1 / 3)"
    by (simp add: ex_defs eval_defs)
  have sync: "\<not> params_allow_async (ex_config False)" and async: "params_allow_async (ex_config True)"
    by (simp_all add: ex_config_def)
  have td: "temporal_dt (ex_config True) = Fin 7"
    by (simp add: ex_config_def)
  note t1 = prepare_rhs_max_dt [where np = NumPy and ck = ex_core_kernels and st = ex_states
      and rt = ex_runtime and cfg = "ex_config False" and ?c4.0 = ex_states and ?c6.0 = ?c6
      and ca = "Fin 3" and cb = "Fin 4" and k = ex_kernels and ?s4.0 = ex_states and ?s7.0 = ?s7
      and a = "Fin 3" and b = "Fin 4"]
  note t2 = prepare_rhs_max_dt [where k = ex_kernels and st = ex_states
      and rt = ex_runtime and cfg = "ex_config True" and ?s4.0 = ex_states and ?s7.0 = ?s7]
  from t1 ex_core_stages ex_stages [of False] ex_amax ex_bmax cfl mn sync
  have a: "\<exists>tr. core_prepare_rhs NumPy ex_core_kernels ex_states ex_runtime (ex_config False) =
      Inr ((?c6, Fin (1 / 12)), tr)"
    and b: "\<exists>tr. prepare_rhs ex_kernels ex_states ex_runtime (ex_config False) = Inr ((?s7, Fin (1 / 3)), tr)"
    by simp_all
  from t2 ex_stages [of True] async td
  have c: "\<exists>tr. prepare_rhs ex_kernels ex_states ex_runtime (ex_config True) = Inr ((?s7, Fin 7), tr)"
    by simp
  from a b c show ?thesis by blast
qed

text \<open>
  C1 as stated fails twice: \<open>fvm.py\<close> returns 1/3 where \<open>min(0.25*dx/amax, 0.25*dy/bmax)\<close>
  is 1/12, and \<open>core/fvm.py\<close> returns \<open>runtime.dt = 5\<close> where both maxima are \<open>+0.0\<close> and that
  minimum is \<open>+inf\<close>.
\<close>

theorem prepare_rhs_max_dt_counterexample:
  "prepare_rhs ex_kernels ex_states ex_runtime (ex_config False) =
     Inr ((ex_states\<lparr>S := [[[Fin (- 5 / 2)]]], SS := [[[Fin 2]]]\<rparr>, Fin (1 / 3)),
       [Reconstruct, Local_speed, Discontinuous_flux, Central_flux, Divergence,
        Explicit_source 0, Stiff_source 0, Cfl_dt])
   \<and> amax (ex_states\<lparr>S := [[[Fin (- 5 / 2)]]], SS := [[[Fin 2]]]\<rparr>) = Inr (Fin 3)
   \<and> bmax (ex_states\<lparr>S := [[[Fin (- 5 / 2)]]], SS := [[[Fin 2]]]\<rparr>) = Inr (Fin 4)
   \<and> py_min (fl_div (fl_mul (Fin (1 / 4)) (delta_x ex_states)) (Fin 3))
             (fl_div (fl_mul (Fin (1 / 4)) (delta_y ex_states)) (Fin 4)) = Fin (1 / 12)
   \<and> core_prepare_rhs NumPy ex_core_kernels ex_still_neg ex_runtime (ex_config False) =
     Inr ((ex_still_neg\<lparr>S := [[[Fin (- 5 / 2)]]]\<rparr>, Fin 5),
       [Reconstruct, Local_speed, Discontinuous_flux, Central_flux, Divergence,
        Explicit_source 0, Cfl_dt])
   \<and> amax (ex_still_neg\<lparr>S := [[[Fin (- 5 / 2)]]]\<rparr>) = Inr (Fin 0)
   \<and> bmax (ex_still_neg\<lparr>S := [[[Fin (- 5 / 2)]]]\<rparr>) = Inr (Fin 0)
   \<and> py_min (fl_div (fl_mul (Fin (1 / 4)) (delta_x ex_still_neg)) (Fin 0))
             (fl_div (fl_mul (Fin (1 / 4)) (delta_y ex_still_neg)) (Fin 0)) = PInf"
  by (simp add: prepare_rhs_def core_prepare_rhs_def ex_defs eval_defs Let_def)










text \<open>
  Where a maximum is \<open>-0.0\<close>, as on the cell at rest with every wave speed \<open>+0.0\<close>, the CFL
  minimum of \<open>core/fvm.py\<close> is \<open>-inf\<close>: \<open>nan_to_num\<close> replaces it by the most negative float,
  and the handler of the CuPy path lets it through.
\<close>

lemma core_prepare_rhs_negative_zero:
  "core_prepare_rhs NumPy ex_core_kernels ex_still ex_runtime (ex_config False) =
     Inr ((ex_still\<lparr>S := [[[Fin (- 5 / 2)]]]\<rparr>, Fin (- float_max)),
       [Reconstruct, Local_speed, Discontinuous_flux, Central_flux, Divergence,
        Explicit_source 0, Cfl_dt])"
  "core_prepare_rhs CuPy_pre_v10 ex_core_kernels ex_still ex_runtime (ex_config False) =
     Inr ((ex_still\<lparr>S := [[[Fin (- 5 / 2)]]]\<rparr>, NInf),
       [Reconstruct, Local_speed, Discontinuous_flux, Central_flux, Divergence,
        Explicit_source 0, Cfl_dt])"
  by (simp_all add: core_prepare_rhs_def ex_defs eval_defs Let_def)

text \<open>
  Claim C4, as the code has it. A call of \<open>prepare_rhs\<close> returns exactly when each stage
  returns on the states the stage before it left: reconstruct, local speeds, discontinuous
  flux, central flux, the divergence written into \<open>S\<close>, the explicit sources in list order
  starting from the states that hold the divergence, the stiff sources in list order; and
  its log is that sequence, each stage once. In \<open>fvm.py\<close> the CFL step comes last only without
  \<open>allow_async\<close> (with it no step size is computed and \<open>config.temporal.dt\<close> is returned);
  \<open>core/fvm.py\<close> has no stiff-source stage and always ends with the CFL step.
\<close>

theorem prepare_rhs_stage_order:
  "(prepare_rhs k st rt cfg = Inr ((st', max_dt), tr) \<longleftrightarrow>
     (\<exists>s1 s2 s3 s4 d s6.
        reconstruct k st rt cfg = Inr s1 \<and>
        get_local_speed k s1 = Inr s2 \<and>
        get_discontinuous_flux k s2 = Inr s3 \<and>
        central_scheme k s3 = Inr s4 \<and>
        flux_divergence (x_H s4) (y_H s4) (snd (cell_sizes cfg s4)) (fst (cell_sizes cfg s4)) = Inr d \<and>
        fold_sources (sources rt) (s4\<lparr>S := d\<rparr>) = Inr s6 \<and>
        fold_sources (stiff_sources rt) s6 = Inr st' \<and>
        (if params_allow_async cfg then max_dt = temporal_dt cfg
         else max_dt_cfl_one (snd (cell_sizes cfg s4)) (fst (cell_sizes cfg s4)) st' = Inr max_dt) \<and>
        tr = [Reconstruct, Local_speed, Discontinuous_flux, Central_flux, Divergence]
             @ map Explicit_source [0..<length (sources rt)]
             @ map Stiff_source [0..<length (stiff_sources rt)]
             @ (if params_allow_async cfg then [] else [Cfl_dt])))
   \<and> (core_prepare_rhs np ck st rt cfg = Inr ((ct', cmax_dt), ctr) \<longleftrightarrow>
     (\<exists>s1 s2 s3 s4 d.
        core_reconstruct ck st rt cfg = Inr s1 \<and>
        core_get_local_speed ck s1 (params_gravity cfg) = Inr s2 \<and>
        core_get_discontinuous_flux ck s2 (params_gravity cfg) = Inr s3 \<and>
        core_central_scheme ck s3 (tol rt) = Inr s4 \<and>
        flux_divergence (x_H s4) (y_H s4) (delta_x s4) (delta_y s4) = Inr d \<and>
        fold_sources (sources rt) (s4\<lparr>S := d\<rparr>) = Inr ct' \<and>
        core_max_dt np (delta_x s4) (delta_y s4) (dt rt) ct' = Inr cmax_dt \<and>
        ctr = [Reconstruct, Local_speed, Discontinuous_flux, Central_flux, Divergence]
              @ map Explicit_source [0..<length (sources rt)] @ [Cfl_dt]))"
  unfolding prepare_rhs_Inr_iff core_prepare_rhs_Inr_iff stage_log_def by simp

text \<open>
  The theorem at the example, from right to left: the stage results determine the call.
\<close>

theorem prepare_rhs_stage_order_witness:
  "prepare_rhs ex_kernels ex_states ex_runtime (ex_config False) =
     Inr ((ex_states\<lparr>S := [[[Fin (- 5 / 2)]]], SS := [[[Fin 2]]]\<rparr>, Fin (1 / 3)),
       [Reconstruct, Local_speed, Discontinuous_flux, Central_flux, Divergence,
        Explicit_source 0, Stiff_source 0, Cfl_dt])
   \<and> core_prepare_rhs NumPy ex_core_kernels ex_states ex_runtime (ex_config False) =
     Inr ((ex_states\<lparr>S := [[[Fin (- 5 / 2)]]]\<rparr>, Fin (1 / 12)),
       [Reconstruct, Local_speed, Discontinuous_flux, Central_flux, Divergence,
        Explicit_source 0, Cfl_dt])"
proof
  show "prepare_rhs ex_kernels ex_states ex_runtime (ex_config False) =
     Inr ((ex_states\<lparr>S := [[[Fin (- 5 / 2)]]], SS := [[[Fin 2]]]\<rparr>, Fin (1 / 3)),
       [Reconstruct, Local_speed, Discontinuous_flux, Central_flux, Divergence,
        Explicit_source 0, Stiff_source 0, Cfl_dt])"
    by (rule prepare_rhs_stage_order [THEN conjunct1, THEN iffD2])
       (simp add: ex_defs eval_defs)
  show "core_prepare_rhs NumPy ex_core_kernels ex_states ex_runtime (ex_config False) =
     Inr ((ex_states\<lparr>S := [[[Fin (- 5 / 2)]]]\<rparr>, Fin (1 / 12)),
       [Reconstruct, Local_speed, Discontinuous_flux, Central_flux, Divergence,
        Explicit_source 0, Cfl_dt])"
    by (rule prepare_rhs_stage_order [THEN conjunct2, THEN iffD2])
       (simp add: ex_defs eval_defs)
qed

text \<open>
  C4 as stated fails twice: with \<open>allow_async\<close> the call of \<open>fvm.py\<close> ends after the stiff
  sources, with no CFL step; and the core variant never calls the stiff source the run-time
  data hold.
\<close>

theorem prepare_rhs_stage_order_counterexample:
  "prepare_rhs ex_kernels ex_states ex_runtime (ex_config True) =
     Inr ((ex_states\<lparr>S := [[[Fin (- 5 / 2)]]], SS := [[[Fin 2]]]\<rparr>, Fin 7),
       [Reconstruct, Local_speed, Discontinuous_flux, Central_flux, Divergence,
        Explicit_source 0, Stiff_source 0])
   \<and> stiff_sources ex_runtime = [ex_stiff]
   \<and> core_prepare_rhs NumPy ex_core_kernels ex_states ex_runtime (ex_config False) =
     Inr ((ex_states\<lparr>S := [[[Fin (- 5 / 2)]]]\<rparr>, Fin (1 / 12)),
       [Reconstruct, Local_speed, Discontinuous_flux, Central_flux, Divergence,
        Explicit_source 0, Cfl_dt])"
  by (simp add: prepare_rhs_def core_prepare_rhs_def ex_defs eval_defs Let_def)

section \<open>Properties of the ghost-cell updaters\<close>

lemma component_funcs_ornt:
  "component_funcs e i ps = Inr fs \<Longrightarrow> f \<in> set fs \<Longrightarrow> func_ornt f = e"
proof (induction ps arbitrary: i fs)
  case Nil
  then show ?case by simp
next
  case (Cons p ps)
  obtain bctp bcv where p: "p = (bctp, bcv)" by (cases p)
  from Cons.prems show ?case
    unfolding p by (auto simp: bind_res_Inr_iff split: if_splits dest: Cons.IH)
qed

lemma component_funcs_known:
  "component_funcs e i ps = Inr fs \<Longrightarrow> (tp, v) \<in> set ps \<Longrightarrow>
     tp = ''outflow'' \<or> tp = ''extrap'' \<or> tp = ''const'' \<or> tp = ''inflow''"
proof (induction ps arbitrary: i fs)
  case Nil
  then show ?case by simp
next
  case (Cons p ps)
  obtain bctp bcv where p: "p = (bctp, bcv)" by (cases p)
  from Cons.prems show ?case
    unfolding p by (auto simp: bind_res_Inr_iff split: if_splits dest: Cons.IH)
qed

lemma edge_funcs_ornt:
  "edge_funcs e bc = Inr fs \<Longrightarrow> f \<in> set fs \<Longrightarrow> func_ornt f = e"
  by (auto simp: edge_funcs_def split: list.splits if_splits dest: component_funcs_ornt)

lemma edge_funcs_periodic:
  "bc_types bc = ''periodic'' # rest \<Longrightarrow> edge_funcs e bc = Inr []"
  by (simp add: edge_funcs_def)

lemma collect_funcs_member:
  "collect_funcs bcs es = Inr fs \<Longrightarrow> f \<in> set fs \<Longrightarrow>
     \<exists>gs. func_ornt f \<in> set es \<and> edge_funcs (func_ornt f) (get_bc bcs (func_ornt f)) = Inr gs \<and> f \<in> set gs"
proof (induction es arbitrary: fs)
  case Nil
  then show ?case by simp
next
  case (Cons e es)
  from Cons.prems(1) obtain gs hs where
    g: "edge_funcs e (get_bc bcs e) = Inr gs" and h: "collect_funcs bcs es = Inr hs"
    and fs: "fs = gs @ hs"
    by (auto simp: bind_res_Inr_iff)
  from Cons.prems(2) fs consider "f \<in> set gs" | "f \<in> set hs" by auto
  then show ?case
  proof cases
    case 1
    with g have "func_ornt f = e" by (rule edge_funcs_ornt)
    with g 1 show ?thesis by auto
  next
    case 2
    from Cons.IH [OF h 2] show ?thesis by auto
  qed
qed

lemma collect_funcs_cong:
  "(\<And>e. e \<in> set es \<Longrightarrow> edge_funcs e (get_bc bcs' e) = edge_funcs e (get_bc bcs e)) \<Longrightarrow>
     collect_funcs bcs' es = collect_funcs bcs es"
  by (induction es) simp_all

lemma collect_funcs_fails:
  "e \<in> set es \<Longrightarrow> edge_funcs e (get_bc bcs e) = Inl err \<Longrightarrow> \<exists>err'. collect_funcs bcs es = Inl err'"
proof (induction es)
  case Nil
  then show ?case by simp
next
  case (Cons e' es)
  show ?case
  proof (cases "edge_funcs e' (get_bc bcs e')")
    case (Inl a)
    then show ?thesis by simp
  next
    case (Inr gs)
    with Cons have "e \<in> set es" by auto
    from Cons.IH [OF this Cons.prems(2)] Inr show ?thesis by auto
  qed
qed

lemma updater_frame:
  assumes "\<And>f s. f \<in> set funcs \<Longrightarrow> ghost (run f s) = ghost s"
  shows "ghost (updater run funcs s) = ghost s"
  using assms unfolding updater_def
  by (induction funcs arbitrary: s) simp_all

lemma get_ghost_cell_updaters_Inr_iff:
  "get_ghost_cell_updaters bcs_check states_check st bcs = Inr funcs \<longleftrightarrow>
     bcs_check bcs = Inr () \<and> collect_funcs bcs orientations = Inr funcs \<and> states_check st = Inr ()"
  by (auto simp: get_ghost_cell_updaters_def bind_res_Inr_iff)

text \<open>
  Claim C6. When every component of an edge is declared \<open>periodic\<close>, the list
  \<open>get_ghost_cell_updaters\<close> returns holds no function made for that edge; and as long as a
  function made for another edge leaves this edge's ghost margin as it is (\<open>ghost\<close> reads
  the margin off the states), the composed updater leaves the margin as it found it.
\<close>

theorem periodic_edge_untouched:
  assumes "get_ghost_cell_updaters bcs_check states_check st bcs = Inr funcs"
    and "set (bc_types (get_bc bcs e)) = {''periodic''}"
    and "\<forall>f s. func_ornt f \<noteq> e \<longrightarrow> ghost (run f s) = ghost s"
  shows "(\<forall>f \<in> set funcs. func_ornt f \<noteq> e) \<and> ghost (updater run funcs soln) = ghost soln"
proof -
  from assms(2) obtain rest where "bc_types (get_bc bcs e) = ''periodic'' # rest"
    by (cases "bc_types (get_bc bcs e)") auto
  then have none: "edge_funcs e (get_bc bcs e) = Inr []"
    by (rule edge_funcs_periodic)
  from assms(1) have c: "collect_funcs bcs orientations = Inr funcs"
    by (simp add: get_ghost_cell_updaters_Inr_iff)
  have no: "func_ornt f \<noteq> e" if "f \<in> set funcs" for f
    using collect_funcs_member [OF c that] none by auto
  with assms(3) have "ghost (updater run funcs soln) = ghost soln"
    by (intro updater_frame) auto
  with no show ?thesis by blast
qed

text \<open>
  Claim C9. Only the first policy of an edge is compared with \<open>periodic\<close>: when it is,
  no function is installed for the edge whatever the other policies and the values are, and
  two configurations that differ only there (and pass \<open>bcs.check()\<close> alike) give the same
  result.
\<close>

theorem first_component_periodic_decides:
  assumes "bc_types (get_bc bcs e) = ''periodic'' # rest"
  shows "(get_ghost_cell_updaters bcs_check states_check st bcs = Inr funcs
            \<longrightarrow> (\<forall>f \<in> set funcs. func_ornt f \<noteq> e))
       \<and> (bc_types (get_bc bcs' e) = ''periodic'' # rest' \<and>
          (\<forall>e'. e' \<noteq> e \<longrightarrow> get_bc bcs' e' = get_bc bcs e') \<and> bcs_check bcs' = bcs_check bcs
            \<longrightarrow> get_ghost_cell_updaters bcs_check states_check st bcs' =
                get_ghost_cell_updaters bcs_check states_check st bcs)"
proof (intro conjI impI)
  assume "get_ghost_cell_updaters bcs_check states_check st bcs = Inr funcs"
  then have c: "collect_funcs bcs orientations = Inr funcs"
    by (simp add: get_ghost_cell_updaters_Inr_iff)
  from assms have none: "edge_funcs e (get_bc bcs e) = Inr []"
    by (rule edge_funcs_periodic)
  have "func_ornt f \<noteq> e" if "f \<in> set funcs" for f
    using collect_funcs_member [OF c that] none by auto
  then show "\<forall>f \<in> set funcs. func_ornt f \<noteq> e" by blast
next
  assume h: "bc_types (get_bc bcs' e) = ''periodic'' # rest' \<and>
          (\<forall>e'. e' \<noteq> e \<longrightarrow> get_bc bcs' e' = get_bc bcs e') \<and> bcs_check bcs' = bcs_check bcs"
  have "edge_funcs e' (get_bc bcs' e') = edge_funcs e' (get_bc bcs e')" for e'
    using h assms by (cases "e' = e") (simp_all add: edge_funcs_periodic)
  then have "collect_funcs bcs' orientations = collect_funcs bcs orientations"
    by (intro collect_funcs_cong)
  with h show "get_ghost_cell_updaters bcs_check states_check st bcs' =
                get_ghost_cell_updaters bcs_check states_check st bcs"
    by (simp add: get_ghost_cell_updaters_def)
qed

text \<open>
  Elsewhere an unknown policy makes \<open>get_ghost_cell_updaters\<close> raise: on an edge whose
  first policy is not \<open>periodic\<close>, every policy paired with a value must be one of the four
  the loop knows.
\<close>

lemma get_ghost_cell_updaters_unknown_policy:
  assumes "(tp, v) \<in> set (zip (bc_types (get_bc bcs e)) (bc_values (get_bc bcs e)))"
    and "tp \<noteq> ''outflow''" "tp \<noteq> ''extrap''" "tp \<noteq> ''const''" "tp \<noteq> ''inflow''"
    and "hd (bc_types (get_bc bcs e)) \<noteq> ''periodic''"
  shows "\<exists>err. get_ghost_cell_updaters bcs_check states_check st bcs = Inl err"
proof -
  let ?bc = "get_bc bcs e"
  from assms(1) have ne: "bc_types ?bc \<noteq> []" by auto
  have "\<exists>err. edge_funcs e ?bc = Inl err"
  proof (cases "edge_funcs e ?bc")
    case (Inl a)
    then show ?thesis by blast
  next
    case (Inr fs)
    with ne assms(6) have "component_funcs e 0 (zip (bc_types ?bc) (bc_values ?bc)) = Inr fs"
      by (auto simp: edge_funcs_def split: list.splits if_splits)
    from component_funcs_known [OF this assms(1)] assms(2-5) show ?thesis by simp
  qed
  moreover have "e \<in> set orientations"
    by (cases e) (simp_all add: orientations_def)
  ultimately obtain err' where "collect_funcs bcs orientations = Inl err'"
    using collect_funcs_fails by blast
  then show ?thesis
    by (cases "bcs_check bcs") (simp_all add: get_ghost_cell_updaters_def)
qed

lemmas bc_defs = ex_bcs_def ex_periodic_def ex_funcs_def ex_bcs_mixed_def ex_bcs_unknown_def passes_def
  get_ghost_cell_updaters_def orientations_def edge_funcs_def init_bc_def init_bc_edge_def bc_helper_def

lemma ex_updaters: "get_ghost_cell_updaters passes passes s0 ex_bcs = Inr ex_funcs"
  by (simp add: bc_defs)

lemma ex_write_frame: "func_ornt f \<noteq> e \<Longrightarrow> ex_write f s e = s e"
  by (auto simp: ex_write_def)

text \<open>
  The theorem at the example: west and east periodic; the states count the writes to each
  component of each edge's margin, and no write reaches the west margin.
\<close>

theorem periodic_edge_untouched_witness:
  "get_ghost_cell_updaters passes passes (\<lambda>e i. 0) ex_bcs = Inr ex_funcs
   \<and> set (bc_types (get_bc ex_bcs West)) = {''periodic''}
   \<and> West \<notin> func_ornt ` set ex_funcs
   \<and> updater ex_write ex_funcs (\<lambda>e i. 0) West = (\<lambda>i. 0)"
proof -
  have p: "set (bc_types (get_bc ex_bcs West)) = {''periodic''}"
    by (simp add: bc_defs)
  have fr: "\<forall>f s. func_ornt f \<noteq> West \<longrightarrow> (\<lambda>s. s West) (ex_write f s) = (\<lambda>s. s West) s"
    by (simp add: ex_write_frame)
  note t = periodic_edge_untouched [where bcs_check = passes and states_check = passes
      and st = "\<lambda>e i. 0" and bcs = ex_bcs and funcs = ex_funcs and e = West
      and ghost = "\<lambda>s. s West" and run = ex_write and soln = "\<lambda>e i. 0"]
  from t [OF ex_updaters p fr]
  have a: "\<forall>f\<in>set ex_funcs. func_ornt f \<noteq> West"
    and b: "updater ex_write ex_funcs (\<lambda>e i. 0) West = (\<lambda>i. 0)"
    by (rule conjunct1, rule conjunct2)
  have c: "West \<notin> func_ornt ` set ex_funcs"
  proof
    assume "West \<in> func_ornt ` set ex_funcs"
    then obtain f where "f \<in> set ex_funcs" and "West = func_ornt f" by (rule imageE)
    with a show False by metis
  qed
  show ?thesis
    by (intro conjI) (rule ex_updaters, rule p, rule c, rule b)
qed

text \<open>
  The theorem at the example: the west edge declares \<open>periodic\<close>, then an unknown policy, then
  \<open>outflow\<close>; the result is that of the all-periodic west edge.
\<close>

theorem first_component_periodic_decides_witness:
  "bc_types (get_bc ex_bcs_mixed West) = [''periodic'', ''bogus'', ''outflow'']
   \<and> get_ghost_cell_updaters passes passes () ex_bcs_mixed = Inr ex_funcs
   \<and> West \<notin> func_ornt ` set ex_funcs
   \<and> get_ghost_cell_updaters passes passes () ex_bcs = get_ghost_cell_updaters passes passes () ex_bcs_mixed"
proof -
  have m: "bc_types (get_bc ex_bcs_mixed West) = ''periodic'' # [''bogus'', ''outflow'']"
    by (simp add: bc_defs)
  have p: "bc_types (get_bc ex_bcs West) = ''periodic'' # [''periodic'', ''periodic'']"
    by (simp add: bc_defs)
  have same: "\<forall>e'. e' \<noteq> West \<longrightarrow> get_bc ex_bcs e' = get_bc ex_bcs_mixed e'"
  proof (intro allI impI)
    fix e' :: ornt assume "e' \<noteq> West"
    then show "get_bc ex_bcs e' = get_bc ex_bcs_mixed e'"
      by (cases e') (simp_all add: bc_defs)
  qed
  have r: "get_ghost_cell_updaters passes passes () ex_bcs_mixed = Inr ex_funcs"
    by (simp add: bc_defs)
  note t = first_component_periodic_decides [OF m, where bcs_check = passes and states_check = passes
      and st = "()" and funcs = ex_funcs and bcs' = ex_bcs and rest' = "[''periodic'', ''periodic'']"]
  from t r p same m show ?thesis by (auto simp: passes_def)
qed

text \<open>
  Claim C3 at a configuration whose west edge declares the unknown policy \<open>bogus\<close> for its
  first component: \<open>init_bc\<close> (and with it \<open>setup_bc\<close>) prints one line, installs nothing
  for that pair and returns the other functions, where \<open>get_ghost_cell_updaters\<close> raises
  \<open>ValueError\<close>.
\<close>

theorem init_bc_unknown_policy_printed:
  "init_bc ex_bcs_unknown False =
     ([linear_extrap_bc_factory West 1, linear_extrap_bc_factory West 2,
       linear_extrap_bc_factory East 0, linear_extrap_bc_factory East 1, linear_extrap_bc_factory East 2,
       const_val_bc_factory South 0 (Some (Fin 0)), const_val_bc_factory South 1 (Some (Fin 0)),
       const_val_bc_factory South 2 (Some (Fin 0)),
       const_val_bc_factory North 0 (Some (Fin 1)), const_val_bc_factory North 1 (Some (Fin 0)),
       const_val_bc_factory North 2 (Some (Fin 0))],
      [''ERROR: Unsupported boundary condition.''])
   \<and> setup_bc ex_bcs_unknown False = init_bc ex_bcs_unknown False
   \<and> get_ghost_cell_updaters passes passes () ex_bcs_unknown = Inl (ValueError ''bogus is not recognized.'')"
  by (simp add: bc_defs setup_bc_def)

lemma helper_loop_replicate:
  "helper_loop e i (replicate n (tp, v)) =
     (if tp = ''extrap'' then (map (\<lambda>j. linear_extrap_bc_factory e (int j)) [i..<i + n], [])
      else if tp = ''const'' then (map (\<lambda>j. const_val_bc_factory e (int j) v) [i..<i + n], [])
      else ([], replicate n ''ERROR: Unsupported boundary condition.''))"
proof (induction n arbitrary: i)
  case 0
  then show ?case by simp
next
  case (Suc n)
  have up: "[i..<i + Suc n] = i # [Suc i..<Suc i + n]"
    by (simp add: upt_conv_Cons del: upt_Suc)
  show ?case
    unfolding up by (simp add: Suc.IH bc_helper_def del: upt_Suc)
qed

lemma remdups_replicate_pos: "0 < n \<Longrightarrow> remdups (replicate n x) = [x]"
proof (induction n)
  case 0
  then show ?case by simp
next
  case (Suc n)
  then show ?case by (cases n) auto
qed

lemma updater_run_func_components:
  "updater (run_func write n) (map (\<lambda>i. with_component f (int i)) is) soln =
     updater write (map (\<lambda>i. with_component f (int i)) is) soln"
proof -
  have c: "func_component (with_component f (int i)) \<noteq> - 1" for i
    by (cases f) simp_all
  show ?thesis
    unfolding updater_def
    by (induction "is" arbitrary: soln) (simp_all add: run_func_def c)
qed

text \<open>
  Claim C7, as the code has it. For an edge whose \<open>n\<close> components share one policy and one
  value, \<open>init_bc\<close> with \<open>vectorize_bc\<close> installs one function, for component \<open>-1\<close>, when the
  policy is \<open>extrap\<close> or \<open>const\<close> and none otherwise; the composed update is the one
  installed without \<open>vectorize_bc\<close>.
\<close>

theorem vectorized_edge_equivalent:
  assumes "bc_types bc = replicate n tp" and "bc_values bc = replicate n v" and "0 < n"
  shows "fst (init_bc_edge True e bc) =
           (if tp = ''extrap'' then [linear_extrap_bc_factory e (- 1)]
            else if tp = ''const'' then [const_val_bc_factory e (- 1) v] else [])
       \<and> updater (run_func write n) (fst (init_bc_edge True e bc)) soln =
         updater (run_func write n) (fst (init_bc_edge False e bc)) soln"
proof -
  have z: "zip (bc_types bc) (bc_values bc) = replicate n (tp, v)"
    using assms(1,2) by (simp add: zip_replicate)
  have hd: "hd (bc_types bc) = tp" "hd (bc_values bc) = v"
    using assms(1-3) by (cases n; simp)+
  have one: "length (remdups (bc_types bc)) = 1" "length (remdups (map set_key (bc_values bc))) = 1"
    using assms(1-3) by (simp_all add: remdups_replicate_pos)
  have v: "fst (init_bc_edge True e bc) =
           (if tp = ''extrap'' then [linear_extrap_bc_factory e (- 1)]
            else if tp = ''const'' then [const_val_bc_factory e (- 1) v] else [])"
    by (simp add: init_bc_edge_def one hd bc_helper_def)
  have l: "fst (init_bc_edge False e bc) =
           (if tp = ''extrap'' then map (\<lambda>i. with_component (linear_extrap_bc_factory e (- 1)) (int i)) [0..<n]
            else if tp = ''const'' then map (\<lambda>i. with_component (const_val_bc_factory e (- 1) v) (int i)) [0..<n]
            else [])"
    by (simp add: init_bc_edge_def z helper_loop_replicate)
  have one_func: "updater (run_func write n) [f] soln =
      updater (run_func write n) (map (\<lambda>i. with_component f (int i)) [0..<n]) soln"
    if "func_component f = - 1" for f
    unfolding updater_run_func_components using that by (simp add: updater_def run_func_def)
  have "updater (run_func write n) (fst (init_bc_edge True e bc)) soln =
         updater (run_func write n) (fst (init_bc_edge False e bc)) soln"
    unfolding v l by (simp add: one_func)
  with v show ?thesis by blast
qed

text \<open>
  The theorem at the south edge of the example, three components \<open>const\<close> with value 0: either
  way each of the three components of the south margin is written once.
\<close>

theorem vectorized_edge_equivalent_witness:
  "fst (init_bc_edge True South (south ex_bcs_unknown)) = [const_val_bc_factory South (- 1) (Some (Fin 0))]
   \<and> fst (init_bc_edge False South (south ex_bcs_unknown)) =
       [const_val_bc_factory South 0 (Some (Fin 0)), const_val_bc_factory South 1 (Some (Fin 0)),
        const_val_bc_factory South 2 (Some (Fin 0))]
   \<and> updater (run_func ex_write 3) [const_val_bc_factory South (- 1) (Some (Fin 0))] (\<lambda>e i. 0) =
       updater (run_func ex_write 3)
         [const_val_bc_factory South 0 (Some (Fin 0)), const_val_bc_factory South 1 (Some (Fin 0)),
          const_val_bc_factory South 2 (Some (Fin 0))] (\<lambda>e i. 0)
   \<and> updater (run_func ex_write 3) [const_val_bc_factory South (- 1) (Some (Fin 0))] (\<lambda>e i. 0) South =
       (\<lambda>i. if i < 3 then 1 else 0)"
proof -
  have t: "bc_types (south ex_bcs_unknown) = replicate 3 ''const''"
    and v: "bc_values (south ex_bcs_unknown) = replicate 3 (Some (Fin 0))"
    by (simp_all add: ex_bcs_unknown_def numeral_3_eq_3)
  have l: "fst (init_bc_edge False South (south ex_bcs_unknown)) =
       [const_val_bc_factory South 0 (Some (Fin 0)), const_val_bc_factory South 1 (Some (Fin 0)),
        const_val_bc_factory South 2 (Some (Fin 0))]"
    by (simp add: bc_defs)
  have n: "0 < (3::nat)" by simp
  note th = vectorized_edge_equivalent [OF t v n, of South ex_write "\<lambda>e i. 0"]
  have a: "fst (init_bc_edge True South (south ex_bcs_unknown)) =
      [const_val_bc_factory South (- 1) (Some (Fin 0))]"
    using th [THEN conjunct1] by simp
  note b = th [THEN conjunct2]
  have u: "[0..<3] = [0, 1, 2]" by (simp add: upt_rec numeral_3_eq_3)
  have c: "updater (run_func ex_write 3) [const_val_bc_factory South (- 1) (Some (Fin 0))] (\<lambda>e i. 0) South =
       (\<lambda>i. if i < 3 then 1 else 0)"
    by (auto simp: updater_def run_func_def ex_write_def u fun_eq_iff)
  from b [unfolded a l] a l c show ?thesis by blast
qed

text \<open>
  C7 as stated fails on an edge whose components are all \<open>periodic\<close>: one policy, one value,
  and no function installed, only the line printed.
\<close>

theorem vectorized_edge_equivalent_counterexample:
  "length (remdups (bc_types ex_periodic)) = 1 \<and> length (remdups (bc_values ex_periodic)) = 1
   \<and> length (remdups (map set_key (bc_values ex_periodic))) = 1
   \<and> init_bc_edge True West ex_periodic = ([], [''ERROR: Unsupported boundary condition.''])"
  by (simp add: bc_defs)

section \<open>Properties of the central flux\<close>

text \<open>
  Claim C5. For finite speeds and a positive tolerance, equal speeds give the arithmetic
  mean of the one-sided fluxes, and so does any difference below the tolerance; with
  finite fluxes the result is finite.
\<close>

theorem central_flux_degenerate:
  "(0 < t \<longrightarrow>
      central_flux (Fin t) (Fin a) (Fin a) F_plus F_minus q_plus q_minus =
        fl_div (fl_add F_minus F_plus) (Fin 2))
   \<and> (ap - am < t \<longrightarrow>
      central_flux (Fin t) (Fin ap) (Fin am) F_plus F_minus q_plus q_minus =
        fl_div (fl_add F_minus F_plus) (Fin 2))
   \<and> (ap - am < t \<longrightarrow>
      central_flux (Fin t) (Fin ap) (Fin am) (Fin fp) (Fin fm) q_plus q_minus = Fin ((fm + fp) / 2))"
proof -
  have sub: "fl_sub (Fin x) (Fin y) = Fin (x - y)" for x y
    by (simp add: fl_sub_def)
  have half: "fl_div (Fin x) (Fin 2) = Fin (x / 2)" for x
    by (simp add: fl_div_def is_inf_def is_zero_def zero_of_def)
  show ?thesis
    by (simp add: central_flux_def sub half)
qed

text \<open>
  The theorem at still water (both speeds zero) and at a difference of a tenth of the
  tolerance.
\<close>

theorem central_flux_degenerate_witness:
  "central_flux (Fin (1 / 10 ^ 12)) (Fin 0) (Fin 0) (Fin 3) (Fin 1) (Fin 5) (Fin 7) = Fin 2
   \<and> central_flux (Fin (1 / 10 ^ 12)) (Fin (1 / 10 ^ 13)) (Fin 0) (Fin 3) (Fin 1) (Fin 5) (Fin 7) = Fin 2"
  using central_flux_degenerate [of "1 / 10 ^ 12" 0 "Fin 3" "Fin 1" "Fin 5" "Fin 7" "1 / 10 ^ 13" 0 3 1]
  by (simp add: fl_div_def is_inf_def is_zero_def)


section \<open>Properties of the case-data generators\<close>

lemma linspace_value:
  assumes "0 \<le> num"
  shows "\<exists>xs. linspace a b num = Inr xs \<and> length xs = nat num \<and>
    (\<forall>i < nat num. xs ! i = (if nat num = 1 then a else a + real i * ((b - a) / real (nat num - 1))))"
proof -
  let ?n = "nat num"
  let ?y = "map (\<lambda>i. if ?n - 1 = 0 then a else a + real i * ((b - a) / real (?n - 1))) [0..<?n]"
  let ?xs = "if 1 < ?n then ?y[?n - 1 := b] else ?y"
  have eq: "linspace a b num = Inr ?xs"
    using assms by (simp add: linspace_def Let_def del: One_nat_def)
  have len: "length ?xs = ?n" by simp
  have nth: "?xs ! i = (if ?n = 1 then a else a + real i * ((b - a) / real (?n - 1)))" if "i < ?n" for i
  proof (cases "1 < ?n")
    case False
    with that have "?n = 1" by simp
    with that show ?thesis by simp
  next
    case True
    show ?thesis
    proof (cases "i = ?n - 1")
      case True
      from \<open>1 < ?n\<close> have ne: "?n \<noteq> 1" and pos: "real (?n - 1) \<noteq> 0" by simp_all
      have "?xs ! i = b" using True \<open>1 < ?n\<close> by simp
      also have "b = a + real i * ((b - a) / real (?n - 1))"
        using pos unfolding True by simp
      finally show ?thesis using ne by simp
    next
      case False
      with \<open>1 < ?n\<close> that show ?thesis by simp
    qed
  qed
  from eq len nth show ?thesis by blast
qed

lemma cell_centers_length: "length (cell_centers x) = length x - 1"
  by (simp add: cell_centers_def)

lemma cell_centers_nth:
  "i < length x - 1 \<Longrightarrow> cell_centers x ! i = (x ! i + x ! Suc i) / 2"
  by (simp add: cell_centers_def nth_butlast nth_tl)

lemma axis_invariant:
  assumes "0 \<le> n" and "lo < hi"
  shows "\<exists>x. linspace lo hi (n + 1) = Inr x \<and> int (length x) = n + 1 \<and>
    length x = length (cell_centers x) + 1 \<and>
    (\<forall>i < length (cell_centers x). cell_centers x ! i = (x ! i + x ! Suc i) / 2 \<and> x ! i < x ! Suc i)"
proof -
  from assms(1) have "0 \<le> n + 1" by simp
  from linspace_value [OF this, of lo hi] obtain x where
    x: "linspace lo hi (n + 1) = Inr x" and len: "length x = nat (n + 1)"
    and nth: "\<And>i. i < nat (n + 1) \<Longrightarrow>
      x ! i = (if nat (n + 1) = 1 then lo else lo + real i * ((hi - lo) / real (nat (n + 1) - 1)))"
    by blast
  from assms(1) have m: "nat (n + 1) = Suc (nat n)" by simp
  have a: "int (length x) = n + 1" using len assms(1) by simp
  have b: "length x = length (cell_centers x) + 1"
    using len m by (simp add: cell_centers_length)
  have c: "cell_centers x ! i = (x ! i + x ! Suc i) / 2 \<and> x ! i < x ! Suc i"
    if "i < length (cell_centers x)" for i
  proof -
    from that len m have i: "i < nat n" by (simp add: cell_centers_length)
    then have pos: "0 < real (nat n)" by simp
    from i have ne: "nat (n + 1) \<noteq> 1" using m by simp
    have xi: "x ! i = lo + real i * ((hi - lo) / real (nat n))"
      using nth [of i] i m ne by simp
    have xs: "x ! Suc i = lo + real (Suc i) * ((hi - lo) / real (nat n))"
      using nth [of "Suc i"] i m ne by simp
    define c where "c = (hi - lo) / real (nat n)"
    have "0 < c"
      using assms(2) pos by (simp add: c_def)
    moreover have "real (Suc i) * c = real i * c + c"
      by (simp add: algebra_simps)
    ultimately have "x ! i < x ! Suc i"
      unfolding xi xs c_def [symmetric] by simp
    moreover have "cell_centers x ! i = (x ! i + x ! Suc i) / 2"
      using that by (intro cell_centers_nth) (simp add: cell_centers_length)
    ultimately show ?thesis by blast
  qed
  from x a b c show ?thesis by blast
qed

text \<open>
  Claim C8. For a valid \<open>config.spatial\<close> the generators return coordinates with one vertex
  more than cells on each axis, every cell centre the midpoint of its two vertices, and the
  vertices strictly increasing.
\<close>

theorem coordinates_grid_invariant:
  assumes "valid_spatial sp"
  shows "\<exists>x y xc yc. coordinates sp = Inr (x, y, xc, yc) \<and>
     int (length x) = discretization sp ! 0 + 1 \<and> int (length y) = discretization sp ! 1 + 1 \<and>
     length x = length xc + 1 \<and> length y = length yc + 1 \<and>
     (\<forall>i < length xc. xc ! i = (x ! i + x ! Suc i) / 2 \<and> x ! i < x ! Suc i) \<and>
     (\<forall>j < length yc. yc ! j = (y ! j + y ! Suc j) / 2 \<and> y ! j < y ! Suc j)"
proof -
  from assms have d: "length (domain sp) = 4" and n: "length (discretization sp) = 2"
    and x01: "domain sp ! 0 < domain sp ! 1" and y01: "domain sp ! 2 < domain sp ! 3"
    and nx: "0 \<le> discretization sp ! 0" and ny: "0 \<le> discretization sp ! 1"
    by (simp_all add: valid_spatial_def)
  from axis_invariant [OF nx x01] obtain x where
    x: "linspace (domain sp ! 0) (domain sp ! 1) (discretization sp ! 0 + 1) = Inr x"
    and px: "int (length x) = discretization sp ! 0 + 1" "length x = length (cell_centers x) + 1"
      "\<forall>i < length (cell_centers x). cell_centers x ! i = (x ! i + x ! Suc i) / 2 \<and> x ! i < x ! Suc i"
    by blast
  from axis_invariant [OF ny y01] obtain y where
    y: "linspace (domain sp ! 2) (domain sp ! 3) (discretization sp ! 1 + 1) = Inr y"
    and py: "int (length y) = discretization sp ! 1 + 1" "length y = length (cell_centers y) + 1"
      "\<forall>j < length (cell_centers y). cell_centers y ! j = (y ! j + y ! Suc j) / 2 \<and> y ! j < y ! Suc j"
    by blast
  have "coordinates sp = Inr (x, y, cell_centers x, cell_centers y)"
    using x y by (simp add: coordinates_def item_def d n)
  with px py show ?thesis by blast
qed

text \<open>
  The theorem on the domain [0, 4] x [0, 2] with 2 x 1 cells.
\<close>

theorem coordinates_grid_invariant_witness:
  "valid_spatial ex_spatial \<and> coordinates ex_spatial = Inr ([0, 2, 4], [0, 2], [1, 3], [1])"
proof -
  have v: "valid_spatial ex_spatial"
    by (simp add: valid_spatial_def ex_spatial_def)
  from coordinates_grid_invariant [OF v] obtain x y xc yc
    where c: "coordinates ex_spatial = Inr (x, y, xc, yc)"
      and l: "int (length x) = discretization ex_spatial ! 0 + 1" "length x = length xc + 1"
    by blast
  have "coordinates ex_spatial = Inr ([0, 2, 4], [0, 2], [1, 3], [1])"
    by (simp add: ex_spatial_def coordinates_def item_def linspace_def cell_centers_def
        bind_res_def Let_def upt_rec)
  with v c l show ?thesis by simp
qed

text \<open>
  Claim C10. Where the formulas are defined (\<open>a\<close> not zero, \<open>h0 * g\<close> not negative), the depth
  \<open>w - topo(x, y)\<close> of the returned surface is never negative, and both discharges are zero
  wherever it is zero.
\<close>

theorem exact_soln_depth:
  assumes "a \<noteq> 0" and "0 \<le> h0 * g"
  shows "case exact_soln x y t g h0 L a eta of (w, hu, hv) \<Rightarrow>
           0 \<le> w - topo x y h0 L a \<and> (w - topo x y h0 L a = 0 \<longrightarrow> hu = 0 \<and> hv = 0)"
  by (simp add: exact_soln_def Let_def)

text \<open>
  The theorem with the default arguments: the point (0, 2) is dry at time 0, the centre
  (2, 2) is under 3/40 of water.
\<close>

theorem exact_soln_depth_witness:
  "exact_soln_default 0 2 0 = (3 / 10, 0, 0) \<and> topo 0 2 (1 / 10) 4 1 = 3 / 10
   \<and> fst (exact_soln_default 2 2 0) - topo 2 2 (1 / 10) 4 1 = 3 / 40"
proof -
  have z: "topo 0 2 (1 / 10) 4 1 = 3 / 10" "topo 2 2 (1 / 10) 4 1 = - 1 / 10"
    by (simp_all add: topo_def Let_def)
  have e: "exact_soln_default 0 2 0 = (3 / 10, 0, 0)" "fst (exact_soln_default 2 2 0) = - 1 / 40"
    by (simp_all add: exact_soln_default_def exact_soln_def Let_def z)
  from exact_soln_depth [of 1 "1 / 10" "981 / 100" 0 2 0 4 "1 / 2"] e z
  show ?thesis by (simp add: exact_soln_default_def)
qed

end
